theory Spec2Isabelle
  imports Complex_Main
begin

text \<open>
  The hypothesis-testing core of spey: the asymptotic test statistics and p-values, the
  bracketing of the upper limit on the parameter of interest (POI), the combination of
  the likelihoods of several statistical models, the recorder of likelihood values and
  the adapter of the optimiser. Each section names the source file it embeds; functions
  of libraries and of files that are not among the sources are parameters.
\<close>

section \<open>Python floats\<close>

text \<open>
  A Python or numpy float is a finite real, one of the two infinities, or NaN. Rounding and
  the sign of zero are not modelled: a finite result is the exact real result. The
  operations follow IEEE 754 as numpy applies it (a division by zero gives an infinity
  or NaN, a comparison with NaN is false).
\<close>

datatype pyfloat = Fin real | PInf | MInf | NaN

fun is_nan :: "pyfloat \<Rightarrow> bool" where
  "is_nan NaN = True"
| "is_nan _ = False"

fun fneg :: "pyfloat \<Rightarrow> pyfloat" where
  "fneg (Fin a) = Fin (- a)"
| "fneg PInf = MInf"
| "fneg MInf = PInf"
| "fneg NaN = NaN"

fun fadd :: "pyfloat \<Rightarrow> pyfloat \<Rightarrow> pyfloat" where
  "fadd NaN _ = NaN"
| "fadd _ NaN = NaN"
| "fadd (Fin a) (Fin b) = Fin (a + b)"
| "fadd PInf MInf = NaN"
| "fadd MInf PInf = NaN"
| "fadd PInf _ = PInf"
| "fadd _ PInf = PInf"
| "fadd MInf _ = MInf"
| "fadd _ MInf = MInf"

definition fsub :: "pyfloat \<Rightarrow> pyfloat \<Rightarrow> pyfloat" where
  "fsub a b = fadd a (fneg b)"

fun fmul :: "pyfloat \<Rightarrow> pyfloat \<Rightarrow> pyfloat" where
  "fmul NaN _ = NaN"
| "fmul _ NaN = NaN"
| "fmul (Fin a) (Fin b) = Fin (a * b)"
| "fmul PInf (Fin b) = (if b = 0 then NaN else if 0 < b then PInf else MInf)"
| "fmul MInf (Fin b) = (if b = 0 then NaN else if 0 < b then MInf else PInf)"
| "fmul (Fin a) PInf = (if a = 0 then NaN else if 0 < a then PInf else MInf)"
| "fmul (Fin a) MInf = (if a = 0 then NaN else if 0 < a then MInf else PInf)"
| "fmul PInf PInf = PInf"
| "fmul PInf MInf = MInf"
| "fmul MInf PInf = MInf"
| "fmul MInf MInf = PInf"

fun fdiv :: "pyfloat \<Rightarrow> pyfloat \<Rightarrow> pyfloat" where
  "fdiv NaN _ = NaN"
| "fdiv _ NaN = NaN"
| "fdiv (Fin a) (Fin b) =
     (if b = 0 then (if a = 0 then NaN else if 0 < a then PInf else MInf) else Fin (a / b))"
| "fdiv (Fin a) PInf = Fin 0"
| "fdiv (Fin a) MInf = Fin 0"
| "fdiv PInf (Fin b) = (if 0 \<le> b then PInf else MInf)"
| "fdiv MInf (Fin b) = (if 0 \<le> b then MInf else PInf)"
| "fdiv PInf PInf = NaN"
| "fdiv PInf MInf = NaN"
| "fdiv MInf PInf = NaN"
| "fdiv MInf MInf = NaN"

fun flt :: "pyfloat \<Rightarrow> pyfloat \<Rightarrow> bool" where
  "flt NaN _ = False"
| "flt _ NaN = False"
| "flt (Fin a) (Fin b) = (a < b)"
| "flt MInf MInf = False"
| "flt MInf _ = True"
| "flt _ MInf = False"
| "flt PInf _ = False"
| "flt _ PInf = True"

fun fle :: "pyfloat \<Rightarrow> pyfloat \<Rightarrow> bool" where
  "fle NaN _ = False"
| "fle _ NaN = False"
| "fle a b = (\<not> flt b a)"

definition fgt :: "pyfloat \<Rightarrow> pyfloat \<Rightarrow> bool" where
  "fgt a b = flt b a"

definition fge :: "pyfloat \<Rightarrow> pyfloat \<Rightarrow> bool" where
  "fge a b = fle b a"

text \<open>Python's \<^verbatim>\<open>a != b\<close>: true whenever an operand is NaN.\<close>

fun fne :: "pyfloat \<Rightarrow> pyfloat \<Rightarrow> bool" where
  "fne NaN _ = True"
| "fne _ NaN = True"
| "fne a b = (a \<noteq> b)"

text \<open>\<^verbatim>\<open>np.sqrt\<close>: NaN on a negative argument.\<close>

fun fsqrt :: "pyfloat \<Rightarrow> pyfloat" where
  "fsqrt (Fin a) = (if a < 0 then NaN else Fin (sqrt a))"
| "fsqrt PInf = PInf"
| "fsqrt MInf = NaN"
| "fsqrt NaN = NaN"

text \<open>\<^verbatim>\<open>np.exp\<close>.\<close>

fun fexp :: "pyfloat \<Rightarrow> pyfloat" where
  "fexp (Fin a) = Fin (exp a)"
| "fexp PInf = PInf"
| "fexp MInf = Fin 0"
| "fexp NaN = NaN"

text \<open>
  Python's builtin \<^verbatim>\<open>max(a, b)\<close> keeps its first argument unless the second
  compares greater.
\<close>

definition pymax :: "pyfloat \<Rightarrow> pyfloat \<Rightarrow> pyfloat" where
  "pymax a b = (if fgt b a then b else a)"

datatype ExpectationType = observed | apriori | aposteriori

datatype pyerror =
    NegativeExpectedYields string
  | IndexError
  | ValueError
  | AssertionError
  | KeyError
  | TypeError
  | OtherError string

section \<open>Test statistics (madstats/tools/utils\_cls.py)\<close>

text \<open>
  \<^verbatim>\<open>poi_test\<close> is a float or an array; the likelihood arguments are callables on the
  POI array or plain floats.
\<close>

datatype poi_arg = PoiScalar pyfloat | PoiArray "pyfloat list"

datatype nll_arg = NllFun "pyfloat list \<Rightarrow> pyfloat" | NllVal pyfloat

fun poi_array :: "poi_arg \<Rightarrow> pyfloat list" where
  "poi_array (PoiScalar x) = [x]"
| "poi_array (PoiArray xs) = xs"

fun nll_at :: "nll_arg \<Rightarrow> pyfloat list \<Rightarrow> pyfloat" where
  "nll_at (NllFun f) poi = f poi"
| "nll_at (NllVal v) poi = v"

text \<open>The locals \<^verbatim>\<open>qmu\<close> and \<^verbatim>\<open>qmuA\<close> of \<^verbatim>\<open>teststatistics\<close>.\<close>

definition qmu :: "pyfloat \<Rightarrow> pyfloat \<Rightarrow> pyfloat" where
  "qmu nll min_negloglikelihood =
     (if flt (fmul (Fin 2) (fsub nll min_negloglikelihood)) (Fin 0) then Fin 0
      else fmul (Fin 2) (fsub nll min_negloglikelihood))"

definition qmuA :: "pyfloat \<Rightarrow> pyfloat \<Rightarrow> pyfloat" where
  "qmuA nllA min_negloglikelihood_asimov =
     pymax (fmul (Fin 2) (fsub nllA min_negloglikelihood_asimov)) (Fin 0)"

definition teststatistics ::
  "poi_arg \<Rightarrow> nll_arg \<Rightarrow> pyfloat \<Rightarrow> nll_arg \<Rightarrow> pyfloat \<Rightarrow> string
     \<Rightarrow> pyfloat \<times> pyfloat \<times> pyfloat" where
  "teststatistics poi_test negloglikelihood_asimov min_negloglikelihood_asimov
       negloglikelihood min_negloglikelihood test_stat =
     (let poi = poi_array poi_test;
          nllA = nll_at negloglikelihood_asimov poi;
          nll = nll_at negloglikelihood poi;
          q = qmu nll min_negloglikelihood;
          qA = qmuA nllA min_negloglikelihood_asimov;
          sqrt_qmu = fsqrt q;
          sqrt_qmuA = fsqrt qA;
          test_statistics =
            (if test_stat \<in> set [''q'', ''q0''] then fsub sqrt_qmu sqrt_qmuA
             else if fle sqrt_qmu sqrt_qmuA then fsub sqrt_qmu sqrt_qmuA
             else fdiv (fsub q qA) (fmul (Fin 2) sqrt_qmuA))
      in (sqrt_qmu, sqrt_qmuA, test_statistics))"

section \<open>Asymptotic distributions (spey/hypothesis\_testing/asymptotic\_calculator.py)\<close>

text \<open>
  The standard normal distribution function \<^verbatim>\<open>multivariate_normal.cdf\<close> of scipy is a
  parameter \<open>cdf\<close> of every operation that calls it.
\<close>

record AsymptoticTestStatisticsDistribution =
  shift :: pyfloat
  cutoff :: pyfloat

definition pvalue ::
  "(pyfloat \<Rightarrow> pyfloat) \<Rightarrow> AsymptoticTestStatisticsDistribution \<Rightarrow> pyfloat \<Rightarrow> pyfloat" where
  "pvalue cdf self v =
     (let return_value = cdf (fsub (shift self) v)
      in if fge return_value (cutoff self) then return_value else NaN)"

definition expected_value :: "AsymptoticTestStatisticsDistribution \<Rightarrow> pyfloat \<Rightarrow> pyfloat" where
  "expected_value self nsigma =
     (let tot = fadd nsigma (shift self)
      in if fgt tot (cutoff self) then tot else cutoff self)"

section \<open>p-values and confidence levels (madstats/tools/utils\_cls.py)\<close>

text \<open>
  \<^verbatim>\<open>np.true_divide(CLsb, CLb, dtype=np.float32)\<close> divides in single precision; the
  rounding to single precision is the parameter \<open>float32\<close>. The division never raises,
  its warnings are caught.
\<close>

definition pvalues ::
  "(pyfloat \<Rightarrow> pyfloat) \<Rightarrow> (pyfloat \<Rightarrow> pyfloat) \<Rightarrow> pyfloat
     \<Rightarrow> AsymptoticTestStatisticsDistribution \<Rightarrow> AsymptoticTestStatisticsDistribution
     \<Rightarrow> pyfloat list \<times> pyfloat list \<times> pyfloat list" where
  "pvalues cdf float32 teststatistic sig_plus_bkg bkg_only =
     (let CLsb = pvalue cdf sig_plus_bkg teststatistic;
          CLb = pvalue cdf bkg_only teststatistic;
          CLs = float32 (fdiv (float32 CLsb) (float32 CLb))
      in ([CLsb], [CLb], [if fne CLb (Fin 0) then CLs else Fin 0]))"


text \<open>
  One call of \<open>pvalues\<close> for each of the five \<open>nsigma\<close>, then the transposition
  \<^verbatim>\<open>zip(*...)\<close>: three lists of five one-element lists.
\<close>

definition expected_pvalues ::
  "(pyfloat \<Rightarrow> pyfloat) \<Rightarrow> (pyfloat \<Rightarrow> pyfloat)
     \<Rightarrow> AsymptoticTestStatisticsDistribution \<Rightarrow> AsymptoticTestStatisticsDistribution
     \<Rightarrow> pyfloat list list \<times> pyfloat list list \<times> pyfloat list list" where
  "expected_pvalues cdf float32 sig_plus_bkg bkg_only =
     (let rows = map (\<lambda>nsigma. pvalues cdf float32 (expected_value bkg_only nsigma)
                                  sig_plus_bkg bkg_only)
                     [Fin 2, Fin 1, Fin 0, Fin (- 1), Fin (- 2)]
      in (map fst rows, map (\<lambda>r. fst (snd r)) rows, map (\<lambda>r. snd (snd r)) rows))"

text \<open>
  The two distributions \<^verbatim>\<open>compute_confidence_level\<close> builds in its first two lines,
  before it looks at \<^verbatim>\<open>expected\<close>.
\<close>

definition sig_plus_bkg_distribution :: "pyfloat \<Rightarrow> AsymptoticTestStatisticsDistribution" where
  "sig_plus_bkg_distribution sqrt_qmuA = \<lparr>shift = fneg sqrt_qmuA, cutoff = MInf\<rparr>"

definition bkg_only_distribution :: "AsymptoticTestStatisticsDistribution" where
  "bkg_only_distribution = \<lparr>shift = Fin 0, cutoff = MInf\<rparr>"

text \<open>
  The function returns a list of floats on the observed branch and a list of one-element
  lists on the expected branch.
\<close>

datatype confidence_levels = Observed_CL "pyfloat list" | Expected_CL "pyfloat list list"

definition compute_confidence_level ::
  "(pyfloat \<Rightarrow> pyfloat) \<Rightarrow> (pyfloat \<Rightarrow> pyfloat) \<Rightarrow> pyfloat \<Rightarrow> pyfloat
     \<Rightarrow> ExpectationType option \<Rightarrow> string \<Rightarrow> confidence_levels" where
  "compute_confidence_level cdf float32 sqrt_qmuA test_statistic expected test_stat =
     (if expected \<in> set [Some observed, Some apriori]
      then (case pvalues cdf float32 test_statistic
                   (sig_plus_bkg_distribution sqrt_qmuA) bkg_only_distribution of
              (CLsb, CLb, CLs) \<Rightarrow>
                if test_stat = ''qtilde'' then Observed_CL CLs else Observed_CL CLsb)
      else (case expected_pvalues cdf float32
                   (sig_plus_bkg_distribution sqrt_qmuA) bkg_only_distribution of
              (CLsb, CLb, CLs) \<Rightarrow>
                if test_stat = ''qtilde'' then Expected_CL CLs else Expected_CL CLsb))"

section \<open>Root bracketing (spey/hypothesis\_testing/upper\_limits.py)\<close>

text \<open>
  The target function is any Python callable: it returns a float or raises. The two
  \<^verbatim>\<open>while\<close> loops of \<^verbatim>\<open>find_root_limits\<close> need not end, so each is a partial
  function and \<open>None\<close> is the loop that runs forever. The factor by which the bound
  is scaled is an argument, since the two versions of the function differ in it.
\<close>

partial_function (option) find_root_limits_low ::
  "(pyfloat \<Rightarrow> pyerror + pyfloat) \<Rightarrow> pyfloat \<Rightarrow> pyfloat \<Rightarrow> pyfloat
     \<Rightarrow> (pyerror + pyfloat) option" where
  "find_root_limits_low computer loc factor low =
     (case computer low of
        Inl e \<Rightarrow> Some (Inl e)
      | Inr v \<Rightarrow>
          if fgt v loc
          then (if flt (fmul low factor) (Fin (1 / 10 ^ 10)) then Some (Inr (fmul low factor))
                else find_root_limits_low computer loc factor (fmul low factor))
          else Some (Inr low))"

partial_function (option) find_root_limits_hig ::
  "(pyfloat \<Rightarrow> pyerror + pyfloat) \<Rightarrow> pyfloat \<Rightarrow> pyfloat \<Rightarrow> pyfloat
     \<Rightarrow> (pyerror + pyfloat) option" where
  "find_root_limits_hig computer loc factor hig =
     (case computer hig of
        Inl e \<Rightarrow> Some (Inl e)
      | Inr v \<Rightarrow>
          if flt v loc
          then (if fgt (fmul hig factor) (Fin (10 ^ 10)) then Some (Inr (fmul hig factor))
                else find_root_limits_hig computer loc factor (fmul hig factor))
          else Some (Inr hig))"

definition find_root_limits ::
  "(pyfloat \<Rightarrow> pyerror + pyfloat) \<Rightarrow> pyfloat \<Rightarrow> pyfloat \<Rightarrow> pyfloat
     \<Rightarrow> (pyerror + pyfloat \<times> pyfloat) option" where
  "find_root_limits computer loc low_ini hig_ini =
     (case find_root_limits_low computer loc (Fin (1 / 2)) low_ini of
        None \<Rightarrow> None
      | Some (Inl e) \<Rightarrow> Some (Inl e)
      | Some (Inr low) \<Rightarrow>
          (case find_root_limits_hig computer loc (Fin 2) hig_ini of
             None \<Rightarrow> None
           | Some (Inl e) \<Rightarrow> Some (Inl e)
           | Some (Inr hig) \<Rightarrow> Some (Inr (low, hig))))"

text \<open>
  The version of madstats/tools/utils\_cls.py starts both bounds at 1.0 and scales by 0.1
  and by 10.
\<close>

definition find_root_limits_madstats ::
  "(pyfloat \<Rightarrow> pyerror + pyfloat) \<Rightarrow> pyfloat \<Rightarrow> (pyerror + pyfloat \<times> pyfloat) option" where
  "find_root_limits_madstats computer loc =
     (case find_root_limits_low computer loc (Fin (1 / 10)) (Fin 1) of
        None \<Rightarrow> None
      | Some (Inl e) \<Rightarrow> Some (Inl e)
      | Some (Inr low) \<Rightarrow>
          (case find_root_limits_hig computer loc (Fin 10) (Fin 1) of
             None \<Rightarrow> None
           | Some (Inl e) \<Rightarrow> Some (Inl e)
           | Some (Inr hig) \<Rightarrow> Some (Inr (low, hig))))"

section \<open>Upper limits (spey/hypothesis\_testing/upper\_limits.py)\<close>

datatype warning = RuntimeWarning string

text \<open>
  \<^verbatim>\<open>compute_teststatistics\<close> (spey/hypothesis\_testing/test\_statistics.py) is
  imported by upper\_limits.py and is not among the sources: the closure
  \<^verbatim>\<open>computer\<close> takes it as its first argument. Its second argument is the function
  it calls as \<^verbatim>\<open>compute_confidence_level(sqrt_qmuA, delta_teststat, test_stat)\<close>;
  either returns a value or raises. The next six arguments are the variables of
  \<^verbatim>\<open>find_poi_upper_limit\<close> the closure captures. The result of the second function
  is indexed by 0 or 1 and the entry is iterated over: a sequence of lists of floats.
\<close>

type_synonym teststatistics_fun =
  "pyfloat \<Rightarrow> pyfloat \<times> pyfloat \<Rightarrow> (pyfloat \<Rightarrow> pyfloat) \<Rightarrow> pyfloat \<times> pyfloat
     \<Rightarrow> (pyfloat \<Rightarrow> pyfloat) \<Rightarrow> string \<Rightarrow> pyerror + pyfloat \<times> pyfloat \<times> pyfloat"

type_synonym confidence_level_fun =
  "pyfloat \<Rightarrow> pyfloat \<Rightarrow> string \<Rightarrow> pyerror + pyfloat list list"

definition computer ::
  "teststatistics_fun \<Rightarrow> confidence_level_fun
     \<Rightarrow> pyfloat \<times> pyfloat \<Rightarrow> (pyfloat \<Rightarrow> pyfloat) \<Rightarrow> pyfloat \<times> pyfloat \<Rightarrow> (pyfloat \<Rightarrow> pyfloat)
     \<Rightarrow> ExpectationType \<Rightarrow> pyfloat \<Rightarrow> string
     \<Rightarrow> pyfloat \<Rightarrow> nat \<Rightarrow> pyerror + pyfloat" where
  "computer compute_teststatistics compute_confidence_level_fun
       maximum_likelihood logpdf maximum_asimov_likelihood asimov_logpdf
       expected confidence_level test_stat poi_test pvalue_idx =
     (case compute_teststatistics poi_test maximum_likelihood logpdf
             maximum_asimov_likelihood asimov_logpdf test_stat of
        Inl e \<Rightarrow> Inl e
      | Inr (_, sqrt_qmuA, delta_teststat) \<Rightarrow>
          (case compute_confidence_level_fun sqrt_qmuA delta_teststat test_stat of
             Inl e \<Rightarrow> Inl e
           | Inr confidence_levels \<Rightarrow>
               (let i = (if expected = observed then 0 else 1)
                in if i < length confidence_levels
                   then (let pvalue = map (\<lambda>x. fsub (Fin 1) x) (confidence_levels ! i)
                         in if pvalue_idx < length pvalue
                            then Inr (fsub (pvalue ! pvalue_idx) confidence_level)
                            else Inl IndexError)
                   else Inl IndexError)))"


text \<open>The test statistic \<^verbatim>\<open>find_poi_upper_limit\<close> selects.\<close>

definition test_stat_of :: "bool \<Rightarrow> string" where
  "test_stat_of allow_negative_signal = (if allow_negative_signal then ''q'' else ''qtilde'')"

text \<open>
  The sanitising of an initial guess,
  \<^verbatim>\<open>1.0 if not low_init or not np.isnan(low_init) else low_init\<close>: \<^verbatim>\<open>not x\<close> holds
  for \<^verbatim>\<open>None\<close> and for zero.
\<close>

definition initial_guess :: "pyfloat option \<Rightarrow> pyfloat" where
  "initial_guess init =
     (case init of
        None \<Rightarrow> Fin 1
      | Some x \<Rightarrow> if x = Fin 0 \<or> \<not> is_nan x then Fin 1 else x)"

definition index_range :: "ExpectationType \<Rightarrow> (string \<times> nat list) list" where
  "index_range expected =
     [(''nominal'', [if expected = observed then 0 else 2]),
      (''1sigma'', [1, 2, 3]),
      (''2sigma'', [0, 1, 2, 3, 4])]"

text \<open>
  The root finder \<^verbatim>\<open>scipy.optimize.toms748\<close> is a parameter: from the target, the
  bracket and \<^verbatim>\<open>maxiter\<close> it returns the root and whether it converged, or raises.
  \<open>target pvalue_idx\<close> is \<^verbatim>\<open>comp = partial(computer, pvalue_idx=pvalue_idx)\<close>.
\<close>

type_synonym root_finder =
  "(pyfloat \<Rightarrow> pyerror + pyfloat) \<Rightarrow> pyfloat \<Rightarrow> pyfloat \<Rightarrow> int \<Rightarrow> pyerror + pyfloat \<times> bool"

fun find_poi_upper_limit_loop ::
  "root_finder \<Rightarrow> (nat \<Rightarrow> pyfloat \<Rightarrow> pyerror + pyfloat) \<Rightarrow> pyfloat \<Rightarrow> pyfloat \<Rightarrow> int
     \<Rightarrow> nat list \<Rightarrow> pyfloat list \<Rightarrow> warning list
     \<Rightarrow> (pyerror + pyfloat list \<times> warning list) option" where
  "find_poi_upper_limit_loop toms748 target low_init hig_init maxiter [] result warnings =
     Some (Inr (result, warnings))"
| "find_poi_upper_limit_loop toms748 target low_init hig_init maxiter (pvalue_idx # rest)
       result warnings =
     (case find_root_limits (target pvalue_idx) (Fin 0) low_init hig_init of
        None \<Rightarrow> None
      | Some (Inl e) \<Rightarrow> Some (Inl e)
      | Some (Inr (low, hig)) \<Rightarrow>
          (case toms748 (target pvalue_idx) low hig maxiter of
             Inl e \<Rightarrow> Some (Inl e)
           | Inr (x0, converged) \<Rightarrow>
               find_poi_upper_limit_loop toms748 target low_init hig_init maxiter rest
                 (result @ [x0])
                 (if \<not> converged
                  then warnings @ [RuntimeWarning ''Optimiser did not converge.'']
                  else warnings)))"

datatype upper_limit = Single pyfloat | Multiple "pyfloat list"

definition find_poi_upper_limit ::
  "teststatistics_fun \<Rightarrow> confidence_level_fun \<Rightarrow> root_finder
     \<Rightarrow> pyfloat \<times> pyfloat \<Rightarrow> (pyfloat \<Rightarrow> pyfloat) \<Rightarrow> pyfloat \<times> pyfloat \<Rightarrow> (pyfloat \<Rightarrow> pyfloat)
     \<Rightarrow> ExpectationType \<Rightarrow> pyfloat \<Rightarrow> bool \<Rightarrow> pyfloat option \<Rightarrow> pyfloat option
     \<Rightarrow> string \<Rightarrow> int \<Rightarrow> (pyerror + upper_limit \<times> warning list) option" where
  "find_poi_upper_limit compute_teststatistics compute_confidence_level_fun toms748
       maximum_likelihood logpdf maximum_asimov_likelihood asimov_logpdf
       expected confidence_level allow_negative_signal low_init hig_init
       expected_pvalue maxiter =
     (if expected_pvalue \<notin> set [''nominal'', ''1sigma'', ''2sigma'']
      then Some (Inl AssertionError)
      else
        (let expected_pvalue' = (if expected = observed then ''nominal'' else expected_pvalue);
             test_stat = test_stat_of allow_negative_signal;
             low_init' = initial_guess low_init;
             hig_init' = initial_guess hig_init;
             target = (\<lambda>pvalue_idx poi_test.
                       computer compute_teststatistics compute_confidence_level_fun
                         maximum_likelihood logpdf maximum_asimov_likelihood asimov_logpdf
                         expected confidence_level test_stat poi_test pvalue_idx)
         in case map_of (index_range expected) expected_pvalue' of
              None \<Rightarrow> Some (Inl KeyError)
            | Some indices \<Rightarrow>
                (case find_poi_upper_limit_loop toms748 target low_init' hig_init' maxiter
                        indices [] [] of
                   None \<Rightarrow> None
                 | Some (Inl e) \<Rightarrow> Some (Inl e)
                 | Some (Inr (result, warnings)) \<Rightarrow>
                     if 1 < length result then Some (Inr (Multiple result, warnings))
                     else (case result of
                             [] \<Rightarrow> Some (Inl IndexError)
                           | x0 # _ \<Rightarrow> Some (Inr (Single x0, warnings))))))"

section \<open>The combiner (spey/combiner/statistics\_combiner.py)\<close>

text \<open>
  A member of the combiner is a \<^verbatim>\<open>StatisticalModel\<close>: its analysis name, the name of
  its backend type, and its \<^verbatim>\<open>likelihood(poi_test, expected, **kwargs)\<close>, which
  returns a negative log-likelihood or raises. The keyword arguments of
  \<^verbatim>\<open>StatisticsCombiner.likelihood\<close> map a backend name to the keyword arguments of
  that backend.
\<close>

record 'v StatisticalModel =
  analysis :: string
  backend_type :: string
  likelihood :: "pyfloat \<Rightarrow> ExpectationType \<Rightarrow> (string \<rightharpoonup> 'v) \<Rightarrow> pyerror + pyfloat"

definition current_kwargs ::
  "(string \<rightharpoonup> (string \<rightharpoonup> 'v)) \<Rightarrow> 'v StatisticalModel \<Rightarrow> (string \<rightharpoonup> 'v)" where
  "current_kwargs kwargs statistical_model =
     (case kwargs (backend_type statistical_model) of None \<Rightarrow> Map.empty | Some kw \<Rightarrow> kw)"

text \<open>
  The \<^verbatim>\<open>for\<close> loop, with the running sum and the warnings issued so far. The
  formatting \<^verbatim>\<open>f"{poi_test:.3f}"\<close> is the parameter \<open>format_3f\<close>. Only
  \<^verbatim>\<open>NegativeExpectedYields\<close> is caught; any other exception leaves the function.
\<close>

fun likelihood_loop ::
  "(pyfloat \<Rightarrow> string) \<Rightarrow> 'v StatisticalModel list \<Rightarrow> pyfloat \<Rightarrow> ExpectationType
     \<Rightarrow> (string \<rightharpoonup> (string \<rightharpoonup> 'v)) \<Rightarrow> pyfloat \<Rightarrow> warning list
     \<Rightarrow> pyerror + pyfloat \<times> warning list" where
  "likelihood_loop format_3f [] poi_test expected kwargs nll warnings = Inr (nll, warnings)"
| "likelihood_loop format_3f (statistical_model # rest) poi_test expected kwargs nll warnings =
     (case likelihood statistical_model poi_test expected
             (current_kwargs kwargs statistical_model) of
        Inr v \<Rightarrow>
          (if is_nan (fadd nll v) then Inr (fadd nll v, warnings)
           else likelihood_loop format_3f rest poi_test expected kwargs (fadd nll v) warnings)
      | Inl (NegativeExpectedYields msg) \<Rightarrow>
          Inr (NaN, warnings @
                 [RuntimeWarning (msg @ [CHR 0x0A] @ ''Setting NLL('' @ format_3f poi_test
                                      @ '') = nan'')])
      | Inl e \<Rightarrow> Inl e)"

definition StatisticsCombiner_likelihood ::
  "(pyfloat \<Rightarrow> string) \<Rightarrow> 'v StatisticalModel list \<Rightarrow> pyfloat \<Rightarrow> ExpectationType \<Rightarrow> bool
     \<Rightarrow> (string \<rightharpoonup> (string \<rightharpoonup> 'v)) \<Rightarrow> pyerror + pyfloat \<times> warning list" where
  "StatisticsCombiner_likelihood format_3f statistical_models poi_test expected return_nll kwargs =
     (case likelihood_loop format_3f statistical_models poi_test expected kwargs (Fin 0) [] of
        Inl e \<Rightarrow> Inl e
      | Inr (nll, warnings) \<Rightarrow>
          Inr (if return_nll \<or> is_nan nll then nll else fexp (fneg nll), warnings))"

section \<open>The recorder (madstats/base/recorder.py)\<close>

text \<open>
  \<open>RECORD\<close> is the class attribute, shared by all instances and \<open>False\<close> at the
  start; the two other fields are the dictionaries of one instance, keyed by the three
  expectation types. \<^verbatim>\<open>np.float32\<close> is the parameter \<open>float32\<close>. The value
  \<^verbatim>\<open>False\<close> that stands for a missing entry is \<open>None\<close>. A NaN key is never found
  again by a dictionary lookup.
\<close>

record Recorder =
  RECORD :: bool
  poi_test_record :: "ExpectationType \<Rightarrow> (pyfloat \<rightharpoonup> pyfloat)"
  maximum_likelihood_record :: "ExpectationType \<Rightarrow> (pyfloat \<times> pyfloat) option"

definition Recorder_init :: "Recorder" where
  "Recorder_init =
     \<lparr>RECORD = False, poi_test_record = (\<lambda>e. Map.empty), maximum_likelihood_record = (\<lambda>e. None)\<rparr>"

definition turn_off :: "Recorder \<Rightarrow> Recorder" where
  "turn_off self = self\<lparr>RECORD := False\<rparr>"

definition turn_on :: "Recorder \<Rightarrow> Recorder" where
  "turn_on self = self\<lparr>RECORD := True\<rparr>"

definition is_on :: "Recorder \<Rightarrow> bool" where
  "is_on self = RECORD self"

definition get_poi_test ::
  "(pyfloat \<Rightarrow> pyfloat) \<Rightarrow> Recorder \<Rightarrow> ExpectationType \<Rightarrow> pyfloat \<Rightarrow> pyfloat option" where
  "get_poi_test float32 self expected poi_test =
     (if is_on self
      then (if is_nan (float32 poi_test) then None
            else poi_test_record self expected (float32 poi_test))
      else None)"

definition get_maximum_likelihood ::
  "Recorder \<Rightarrow> ExpectationType \<Rightarrow> (pyfloat \<times> pyfloat) option" where
  "get_maximum_likelihood self expected =
     (if is_on self then maximum_likelihood_record self expected else None)"

definition record_poi_test ::
  "(pyfloat \<Rightarrow> pyfloat) \<Rightarrow> Recorder \<Rightarrow> ExpectationType \<Rightarrow> pyfloat \<Rightarrow> pyfloat \<Rightarrow> Recorder" where
  "record_poi_test float32 self expected poi_test negative_loglikelihood =
     self\<lparr>poi_test_record :=
            (poi_test_record self)
              (expected := (poi_test_record self expected)
                 (float32 poi_test \<mapsto> float32 negative_loglikelihood))\<rparr>"

definition record_maximum_likelihood ::
  "(pyfloat \<Rightarrow> pyfloat) \<Rightarrow> Recorder \<Rightarrow> ExpectationType \<Rightarrow> pyfloat \<Rightarrow> pyfloat \<Rightarrow> Recorder" where
  "record_maximum_likelihood float32 self expected poi_test negative_loglikelihood =
     (let do_record =
            (case get_maximum_likelihood self expected of
               None \<Rightarrow> True
             | Some (poi, nll) \<Rightarrow>
                 if flt nll (float32 negative_loglikelihood) then False else True)
      in if do_record
         then self\<lparr>maximum_likelihood_record :=
                (maximum_likelihood_record self)
                  (expected := Some (float32 poi_test, float32 negative_loglikelihood))\<rparr>
         else self)"

section \<open>The optimiser adapter (spey/optimizer/core.py)\<close>

text \<open>
  Modelled from the spec: \<^verbatim>\<open>ModelConfig\<close> (spey/base/model\_config.py) is not among
  the sources. After section 3 of the specification it holds the index of the POI in
  the parameter vector, the suggested initial parameters and the bounds, and derives
  the bounds of a fixed-POI fit.
\<close>

record ModelConfig =
  poi_index :: nat
  suggested_init :: "pyfloat list"
  fixed_poi_bounds :: "pyfloat option \<Rightarrow> (pyfloat \<times> pyfloat) list"

text \<open>
  A constraint is a dictionary with a type and a function of the parameter vector. The
  fixed-POI constraint is the one \<^verbatim>\<open>fit\<close> builds.
\<close>

datatype constraint =
  Constraint (constraint_type: string) (constraint_fun: "pyfloat list \<Rightarrow> pyerror + pyfloat")

definition fixed_poi_constraint :: "nat \<Rightarrow> pyfloat \<Rightarrow> constraint" where
  "fixed_poi_constraint idx fixed_poi_value =
     Constraint ''eq''
       (\<lambda>v. if idx < length v then Inr (fsub (v ! idx) fixed_poi_value) else Inl IndexError)"

datatype option_value = OInt int | OFloat pyfloat | OStr string | OBool bool

text \<open>
  \<^verbatim>\<open>initial_parameters or model_configuration.suggested_init\<close>: the initial parameters
  are \<^verbatim>\<open>None\<close>, a Python list or an array. A list is true when it is not empty. The
  truth value of an array with more than one element raises, that of a one-element array
  is that of its element, and the empty array is false.
\<close>

datatype parameters = PyList "pyfloat list" | NdArray "pyfloat list"

fun parameters_or :: "parameters option \<Rightarrow> pyfloat list \<Rightarrow> pyerror + pyfloat list" where
  "parameters_or None other = Inr other"
| "parameters_or (Some (PyList [])) other = Inr other"
| "parameters_or (Some (PyList xs)) other = Inr xs"
| "parameters_or (Some (NdArray [])) other = Inr other"
| "parameters_or (Some (NdArray [x])) other = Inr (if x = Fin 0 then other else [x])"
| "parameters_or (Some (NdArray xs)) other = Inl ValueError"

text \<open>\<^verbatim>\<open>bounds or ...\<close>, with \<^verbatim>\<open>bounds\<close> a list or \<^verbatim>\<open>None\<close>.\<close>

fun list_or :: "'a list option \<Rightarrow> 'a list \<Rightarrow> 'a list" where
  "list_or None other = other"
| "list_or (Some []) other = other"
| "list_or (Some xs) other = xs"

text \<open>
  Lists of constraints are objects the caller may hold: the store maps the address of a
  list to its content, \<^verbatim>\<open>constraints\<close> is an address or \<^verbatim>\<open>None\<close>, and \<^verbatim>\<open>fit\<close>
  returns the store it leaves. The minimiser \<^verbatim>\<open>minimize\<close> of
  spey/optimizer/scipy\_tools.py is a parameter; it reads its arguments and returns the
  minimum and its location, or raises.
\<close>

type_synonym store = "nat \<Rightarrow> constraint list"

type_synonym ('f, 'h) minimizer =
  "'f \<Rightarrow> pyfloat list \<Rightarrow> bool \<Rightarrow> 'h option \<Rightarrow> (pyfloat \<times> pyfloat) list \<Rightarrow> constraint list
     \<Rightarrow> (string \<rightharpoonup> option_value) \<Rightarrow> pyerror + pyfloat \<times> pyfloat list"

definition fit ::
  "('f, 'h) minimizer \<Rightarrow> store \<Rightarrow> 'f \<Rightarrow> ModelConfig \<Rightarrow> bool \<Rightarrow> 'h option
     \<Rightarrow> parameters option \<Rightarrow> (pyfloat \<times> pyfloat) list option \<Rightarrow> pyfloat option
     \<Rightarrow> (pyfloat list \<Rightarrow> pyfloat) option \<Rightarrow> nat option \<Rightarrow> (string \<rightharpoonup> option_value)
     \<Rightarrow> store \<times> (pyerror + pyfloat \<times> pyfloat list)" where
  "fit minimize heap func model_configuration do_grad hessian initial_parameters bounds
       fixed_poi_value logpdf constraints options =
     (case parameters_or initial_parameters (suggested_init model_configuration) of
        Inl e \<Rightarrow> (heap, Inl e)
      | Inr init_pars \<Rightarrow>
          (let par_bounds = list_or bounds (fixed_poi_bounds model_configuration fixed_poi_value);
               constraint_list = (case constraints of None \<Rightarrow> [] | Some a \<Rightarrow> heap a);
               options' = options(''poi_index'' \<mapsto> OInt (int (poi_index model_configuration)));
               finish = (\<lambda>r. case r of
                                Inl e \<Rightarrow> Inl e
                              | Inr (fun, x) \<Rightarrow>
                                  Inr (case logpdf of None \<Rightarrow> fun | Some lp \<Rightarrow> lp x, x))
           in case fixed_poi_value of
                None \<Rightarrow>
                  (heap, finish (minimize func init_pars do_grad hessian par_bounds
                                   constraint_list options'))
              | Some v \<Rightarrow>
                  if poi_index model_configuration < length init_pars
                  then
                    (let init_pars' = init_pars[poi_index model_configuration := v];
                         constraint_list' =
                           constraint_list @
                             [fixed_poi_constraint (poi_index model_configuration) v];
                         heap' = (case constraints of
                                    None \<Rightarrow> heap
                                  | Some a \<Rightarrow> heap(a := constraint_list'))
                     in (heap', finish (minimize func init_pars' do_grad hessian par_bounds
                                          constraint_list' options')))
                  else (heap, Inl IndexError)))"

section \<open>Properties of the test statistics\<close>

lemma qmu_Fin: "qmu (Fin nll) (Fin m) = Fin (max (2 * (nll - m)) 0)"
  by (simp add: qmu_def fsub_def max_def)

lemma qmuA_Fin: "qmuA (Fin nllA) (Fin m) = Fin (max (2 * (nllA - m)) 0)"
  by (simp add: qmuA_def pymax_def fgt_def fsub_def max_def)

text \<open>
  Claim C3. For finite inputs \<open>nll\<close>, \<open>min_nll\<close>, \<open>nllA\<close>, \<open>min_nllA\<close> (given as
  floats or through callables) \<^verbatim>\<open>teststatistics\<close> returns
  \<open>sqrt_qmu = sqrt (max (2 * (nll - min_nll)) 0)\<close> and
  \<open>sqrt_qmuA = sqrt (max (2 * (nllA - min_nllA)) 0)\<close>; \<open>qmu\<close> and \<open>qmuA\<close> are these
  clamped values and \<open>qmu = 0\<close> whenever \<open>nll \<le> min_nll\<close>. The third component is
  \<open>sqrt_qmu - sqrt_qmuA\<close> for the kinds q and q0; for qtilde (and every other
  string, which the code treats alike) it is the same difference when
  \<open>sqrt_qmu \<le> sqrt_qmuA\<close> and the numpy quotient \<open>(qmu - qmuA) / (2 * sqrt_qmuA)\<close>
  otherwise.
\<close>

theorem C3_teststatistics:
  fixes nll min_nll nllA min_nllA :: real
  assumes "nll_at negloglikelihood (poi_array poi_test) = Fin nll"
    and "nll_at negloglikelihood_asimov (poi_array poi_test) = Fin nllA"
  shows "teststatistics poi_test negloglikelihood_asimov (Fin min_nllA)
           negloglikelihood (Fin min_nll) kind =
         (Fin (sqrt (max (2 * (nll - min_nll)) 0)),
          Fin (sqrt (max (2 * (nllA - min_nllA)) 0)),
          if kind = ''q'' \<or> kind = ''q0''
          then Fin (sqrt (max (2 * (nll - min_nll)) 0) - sqrt (max (2 * (nllA - min_nllA)) 0))
          else if sqrt (max (2 * (nll - min_nll)) 0) \<le> sqrt (max (2 * (nllA - min_nllA)) 0)
          then Fin (sqrt (max (2 * (nll - min_nll)) 0) - sqrt (max (2 * (nllA - min_nllA)) 0))
          else fdiv (Fin (max (2 * (nll - min_nll)) 0 - max (2 * (nllA - min_nllA)) 0))
                    (Fin (2 * sqrt (max (2 * (nllA - min_nllA)) 0))))
       \<and> qmu (Fin nll) (Fin min_nll) = Fin (max (2 * (nll - min_nll)) 0)
       \<and> qmuA (Fin nllA) (Fin min_nllA) = Fin (max (2 * (nllA - min_nllA)) 0)
       \<and> (nll \<le> min_nll \<longrightarrow> qmu (Fin nll) (Fin min_nll) = Fin 0)"
proof -
  define Q where "Q = max (2 * (nll - min_nll)) 0"
  define QA where "QA = max (2 * (nllA - min_nllA)) 0"
  have nonneg: "\<not> Q < 0" "\<not> QA < 0"
    by (simp_all add: Q_def QA_def)
  have q: "qmu (Fin nll) (Fin min_nll) = Fin Q" "qmuA (Fin nllA) (Fin min_nllA) = Fin QA"
    by (simp_all add: Q_def QA_def qmu_Fin qmuA_Fin)
  have ts: "teststatistics poi_test negloglikelihood_asimov (Fin min_nllA)
           negloglikelihood (Fin min_nll) kind =
         (Fin (sqrt Q), Fin (sqrt QA),
          if kind = ''q'' \<or> kind = ''q0'' then Fin (sqrt Q - sqrt QA)
          else if sqrt Q \<le> sqrt QA then Fin (sqrt Q - sqrt QA)
          else fdiv (Fin (Q - QA)) (Fin (2 * sqrt QA)))"
    unfolding teststatistics_def Let_def assms(1,2) q
    using nonneg by (simp add: fsub_def)
  have z: "nll \<le> min_nll \<longrightarrow> qmu (Fin nll) (Fin min_nll) = Fin 0"
    by (simp add: qmu_Fin max_def)
  show ?thesis using ts z q unfolding Q_def QA_def by blast
qed

theorem C3_teststatistics_witness:
  "teststatistics (PoiScalar (Fin 1)) (NllFun (\<lambda>p. Fin 2)) (Fin 0) (NllVal (Fin 0)) (Fin 0) ''qtilde''
     = (Fin 0, Fin 2, Fin (- 2))
   \<and> teststatistics (PoiScalar (Fin 1)) (NllVal (Fin (1/2))) (Fin 0) (NllVal (Fin 2)) (Fin 0) ''qtilde''
     = (Fin 2, Fin 1, Fin (3/2))
   \<and> qmu (Fin 0) (Fin 0) = Fin 0"
  using C3_teststatistics[where negloglikelihood = "NllVal (Fin 0)" and poi_test = "PoiScalar (Fin 1)"
      and nll = 0 and negloglikelihood_asimov = "NllFun (\<lambda>p. Fin 2)" and nllA = 2
      and kind = "''qtilde''" and min_nllA = 0 and min_nll = 0]
    C3_teststatistics[where negloglikelihood = "NllVal (Fin 2)" and poi_test = "PoiScalar (Fin 1)"
      and nll = 2 and negloglikelihood_asimov = "NllVal (Fin (1/2))" and nllA = "1/2"
      and kind = "''qtilde''" and min_nllA = 0 and min_nll = 0]
  by simp

section \<open>Properties of the p-values\<close>





text \<open>
  Claim C7. \<^verbatim>\<open>compute_confidence_level\<close> builds both distributions with
  \<open>cutoff = -inf\<close> whatever the expectation type: the aposteriori (expected) branch
  calls \<^verbatim>\<open>expected_pvalues\<close> and the observed and apriori branches call
  \<^verbatim>\<open>pvalues\<close> on the same two unbounded distributions. \<^verbatim>\<open>pvalue\<close> returns NaN
  instead of a value that is not at or above the cutoff.
\<close>

theorem C7_cutoffs:
  "cutoff (sig_plus_bkg_distribution sqrt_qmuA) = MInf
   \<and> cutoff bkg_only_distribution = MInf
   \<and> compute_confidence_level cdf float32 sqrt_qmuA t (Some aposteriori) test_stat =
       Expected_CL ((if test_stat = ''qtilde'' then snd \<circ> snd else fst)
         (expected_pvalues cdf float32 \<lparr>shift = fneg sqrt_qmuA, cutoff = MInf\<rparr>
                                       \<lparr>shift = Fin 0, cutoff = MInf\<rparr>))
   \<and> compute_confidence_level cdf float32 sqrt_qmuA t (Some observed) test_stat =
       Observed_CL ((if test_stat = ''qtilde'' then snd \<circ> snd else fst)
         (pvalues cdf float32 t \<lparr>shift = fneg sqrt_qmuA, cutoff = MInf\<rparr>
                                 \<lparr>shift = Fin 0, cutoff = MInf\<rparr>))
   \<and> compute_confidence_level cdf float32 sqrt_qmuA t (Some apriori) test_stat =
       Observed_CL ((if test_stat = ''qtilde'' then snd \<circ> snd else fst)
         (pvalues cdf float32 t \<lparr>shift = fneg sqrt_qmuA, cutoff = MInf\<rparr>
                                 \<lparr>shift = Fin 0, cutoff = MInf\<rparr>))
   \<and> pvalue cdf d v = (if fge (cdf (fsub (shift d) v)) (cutoff d)
                        then cdf (fsub (shift d) v) else NaN)"
  by (auto simp: compute_confidence_level_def sig_plus_bkg_distribution_def
      bkg_only_distribution_def pvalue_def Let_def split: prod.splits)

text \<open>
  On the aposteriori branch the signal-plus-background distribution does not have
  \<open>cutoff = 0\<close>: it is the unbounded one.
\<close>

theorem C7_cutoffs_counterexample:
  "cutoff (sig_plus_bkg_distribution (Fin 1)) \<noteq> Fin 0
   \<and> compute_confidence_level (\<lambda>x. Fin (1 / 2)) (\<lambda>x. x) (Fin 1) (Fin 0)
         (Some aposteriori) ''qtilde'' =
       Expected_CL (snd (snd (expected_pvalues (\<lambda>x. Fin (1 / 2)) (\<lambda>x. x)
         \<lparr>shift = Fin (- 1), cutoff = MInf\<rparr> \<lparr>shift = Fin 0, cutoff = MInf\<rparr>)))"
  by (simp add: compute_confidence_level_def sig_plus_bkg_distribution_def
      bkg_only_distribution_def split: prod.splits)

section \<open>Properties of the root bracketing\<close>

lemma find_root_limits_low_decreasing:
  assumes ret: "find_root_limits_low target (Fin c) (Fin k) (Fin l) = Some r"
    and comp: "\<forall>x. target (Fin x) = Inr (Fin (f x))"
    and k: "0 < k" "k \<le> 1"
    and mono: "\<forall>x y. x \<le> y \<longrightarrow> f y \<le> f x"
  shows "\<exists>L. r = Inr (Fin L) \<and> ((L = l \<and> f l \<le> c) \<or> L < 1 / 10 ^ 10)"
proof -
  define P where "P = (\<lambda>tgt loc factor low (res :: pyerror + pyfloat).
      tgt = target \<longrightarrow> loc = Fin c \<longrightarrow> factor = Fin k \<longrightarrow>
      (\<forall>l. low = Fin l \<longrightarrow>
         (\<exists>L. res = Inr (Fin L) \<and> ((L = l \<and> f l \<le> c) \<or> L < 1 / 10 ^ 10))))"
  have "P target (Fin c) (Fin k) (Fin l) r"
  proof (rule find_root_limits_low.raw_induct[where P = P, OF _ ret])
    fix self tgt loc factor low res
    assume ih: "\<And>tgt loc factor low res. self tgt loc factor low = Some res \<Longrightarrow> P tgt loc factor low res"
      and step: "(case tgt low of
        Inl e \<Rightarrow> Some (Inl e)
      | Inr v \<Rightarrow>
          if fgt v loc
          then (if flt (fmul low factor) (Fin (1 / 10 ^ 10)) then Some (Inr (fmul low factor))
                else self tgt loc factor (fmul low factor))
          else Some (Inr low)) = Some res"
    show "P tgt loc factor low res"
      unfolding P_def
    proof (intro impI allI)
      fix l
      assume tgt: "tgt = target" and loc: "loc = Fin c" and factor: "factor = Fin k"
        and low: "low = Fin l"
      from comp have cl: "target (Fin l) = Inr (Fin (f l))" by blast
      from step have body:
        "(if c < f l
          then (if l * k < 1 / 10 ^ 10 then Some (Inr (Fin (l * k)))
                else self target (Fin c) (Fin k) (Fin (l * k)))
          else Some (Inr (Fin l))) = Some res"
        unfolding tgt low loc factor cl by (simp add: fgt_def cong: if_cong)
      show "\<exists>L. res = Inr (Fin L) \<and> ((L = l \<and> f l \<le> c) \<or> L < 1 / 10 ^ 10)"
      proof (cases "c < f l")
        case False
        with body have "res = Inr (Fin l)" by simp
        with False show ?thesis by simp
      next
        case True
        show ?thesis
        proof (cases "l * k < 1 / 10 ^ 10")
          case True
          with body \<open>c < f l\<close> have "res = Inr (Fin (l * k))" by simp
          with True show ?thesis by blast
        next
          case False
          with body \<open>c < f l\<close>
          have rec: "self target (Fin c) (Fin k) (Fin (l * k)) = Some res" by simp
          from ih[OF rec] obtain L where L: "res = Inr (Fin L)"
              "(L = l * k \<and> f (l * k) \<le> c) \<or> L < 1 / 10 ^ 10"
            unfolding P_def by auto
          have "(0::real) < 1 / 10 ^ 10" by simp
          with False have "0 < l * k" by linarith
          with k have "0 < l" by (simp add: zero_less_mult_iff)
          with k have "l * k \<le> l" by (simp add: mult_left_le)
          with mono have "f l \<le> f (l * k)" by blast
          with \<open>c < f l\<close> L show ?thesis by auto
        qed
      qed
    qed
  qed
  then show ?thesis unfolding P_def by blast
qed


lemma find_root_limits_hig_decreasing:
  assumes ret: "find_root_limits_hig target (Fin c) (Fin k) (Fin h) = Some r"
    and comp: "\<forall>x. target (Fin x) = Inr (Fin (f x))"
    and k: "1 \<le> k"
    and mono: "\<forall>x y. x \<le> y \<longrightarrow> f y \<le> f x"
    and cross: "0 \<le> x0" "c \<le> f x0"
  shows "\<exists>H. r = Inr (Fin H) \<and> ((H = h \<and> c \<le> f h) \<or> 10 ^ 10 < H)"
proof -
  define P where "P = (\<lambda>tgt loc factor hig (res :: pyerror + pyfloat).
      tgt = target \<longrightarrow> loc = Fin c \<longrightarrow> factor = Fin k \<longrightarrow>
      (\<forall>h. hig = Fin h \<longrightarrow>
         (\<exists>H. res = Inr (Fin H) \<and> ((H = h \<and> c \<le> f h) \<or> 10 ^ 10 < H))))"
  have "P target (Fin c) (Fin k) (Fin h) r"
  proof (rule find_root_limits_hig.raw_induct[where P = P, OF _ ret])
    fix self tgt loc factor hig res
    assume ih: "\<And>tgt loc factor hig res. self tgt loc factor hig = Some res \<Longrightarrow> P tgt loc factor hig res"
      and step: "(case tgt hig of
        Inl e \<Rightarrow> Some (Inl e)
      | Inr v \<Rightarrow>
          if flt v loc
          then (if fgt (fmul hig factor) (Fin (10 ^ 10)) then Some (Inr (fmul hig factor))
                else self tgt loc factor (fmul hig factor))
          else Some (Inr hig)) = Some res"
    show "P tgt loc factor hig res"
      unfolding P_def
    proof (intro impI allI)
      fix h
      assume tgt: "tgt = target" and loc: "loc = Fin c" and factor: "factor = Fin k"
        and hig: "hig = Fin h"
      from comp have cl: "target (Fin h) = Inr (Fin (f h))" by blast
      from step have body:
        "(if f h < c
          then (if 10 ^ 10 < h * k then Some (Inr (Fin (h * k)))
                else self target (Fin c) (Fin k) (Fin (h * k)))
          else Some (Inr (Fin h))) = Some res"
        unfolding tgt hig loc factor cl by (simp add: fgt_def cong: if_cong)
      show "\<exists>H. res = Inr (Fin H) \<and> ((H = h \<and> c \<le> f h) \<or> 10 ^ 10 < H)"
      proof (cases "f h < c")
        case False
        with body have "res = Inr (Fin h)" by simp
        with False show ?thesis by simp
      next
        case True
        show ?thesis
        proof (cases "10 ^ 10 < h * k")
          case True
          with body \<open>f h < c\<close> have "res = Inr (Fin (h * k))" by simp
          with True show ?thesis by blast
        next
          case False
          with body \<open>f h < c\<close>
          have rec: "self target (Fin c) (Fin k) (Fin (h * k)) = Some res" by simp
          from ih[OF rec] obtain H where H: "res = Inr (Fin H)"
              "(H = h * k \<and> c \<le> f (h * k)) \<or> 10 ^ 10 < H"
            unfolding P_def by auto
          have "x0 < h"
          proof (rule ccontr)
            assume "\<not> x0 < h"
            then have "h \<le> x0" by simp
            with mono have "f x0 \<le> f h" by blast
            with cross \<open>f h < c\<close> show False by simp
          qed
          with cross have "0 < h" by simp
          with k have "h \<le> h * k" by simp
          with mono have "f (h * k) \<le> f h" by blast
          with \<open>f h < c\<close> H show ?thesis by auto
        qed
      qed
    qed
  qed
  then show ?thesis unfolding P_def by blast
qed

lemma find_root_limits_low_steps:
  assumes comp: "\<forall>x. target (Fin x) = Inr (Fin (f x))" and k: "0 < k" "k < 1"
  shows "l * k ^ n < 1 / 10 ^ 10 \<Longrightarrow>
         \<exists>r. find_root_limits_low target (Fin c) (Fin k) (Fin l) = Some r"
proof (induction n arbitrary: l)
  case 0
  then have small: "l < 1 / 10 ^ 10" by simp
  have "l * k < 1 / 10 ^ 10"
  proof (cases "0 \<le> l")
    case True
    with k have "l * k \<le> l" by (simp add: mult_left_le)
    with small show ?thesis by linarith
  next
    case False
    with k have "l * k < 0" by (simp add: mult_less_0_iff)
    then show ?thesis by simp
  qed
  then show ?case
    using comp by (subst find_root_limits_low.simps) (simp add: fgt_def)
next
  case (Suc n)
  then have "(l * k) * k ^ n < 1 / 10 ^ 10" by (simp add: mult.assoc)
  from Suc.IH[OF this] obtain r where
    "find_root_limits_low target (Fin c) (Fin k) (Fin (l * k)) = Some r" by blast
  then show ?case
    using comp by (subst find_root_limits_low.simps) (simp add: fgt_def)
qed

lemma find_root_limits_low_returns:
  assumes comp: "\<forall>x. target (Fin x) = Inr (Fin (f x))" and k: "0 < k" "k < 1"
  shows "\<exists>r. find_root_limits_low target (Fin c) (Fin k) (Fin l) = Some r"
proof -
  have "\<exists>n. l * k ^ n < 1 / 10 ^ 10"
  proof (cases "0 < l")
    case False
    then have "l * k ^ 0 < 1 / 10 ^ 10" by simp
    then show ?thesis by blast
  next
    case True
    then have "0 < (1 / 10 ^ 10) / l" by simp
    from real_arch_pow_inv[OF this k(2)] obtain n where "k ^ n < (1 / 10 ^ 10) / l" by blast
    with True have "l * k ^ n < 1 / 10 ^ 10" by (simp add: field_simps)
    then show ?thesis by blast
  qed
  then show ?thesis using find_root_limits_low_steps[OF comp k] by blast
qed

lemma find_root_limits_hig_steps:
  assumes comp: "\<forall>x. target (Fin x) = Inr (Fin (f x))" and k: "1 < k"
  shows "0 < h \<Longrightarrow> 10 ^ 10 < h * k ^ n \<Longrightarrow>
         \<exists>r. find_root_limits_hig target (Fin c) (Fin k) (Fin h) = Some r"
proof (induction n arbitrary: h)
  case 0
  then have big: "10 ^ 10 < h" by simp
  with k 0 have "h < h * k" by simp
  with big have "10 ^ 10 < h * k" by linarith
  then show ?case
    using comp by (subst find_root_limits_hig.simps) (simp add: fgt_def)
next
  case (Suc n)
  then have "10 ^ 10 < (h * k) * k ^ n" by (simp add: mult.assoc)
  moreover from Suc.prems k have "0 < h * k" by simp
  ultimately obtain r where
    "find_root_limits_hig target (Fin c) (Fin k) (Fin (h * k)) = Some r"
    using Suc.IH by blast
  then show ?case
    using comp by (subst find_root_limits_hig.simps) (simp add: fgt_def)
qed

lemma find_root_limits_hig_returns:
  assumes comp: "\<forall>x. target (Fin x) = Inr (Fin (f x))" and k: "1 < k"
    and pos: "f h < c \<longrightarrow> 0 < h"
  shows "\<exists>r. find_root_limits_hig target (Fin c) (Fin k) (Fin h) = Some r"
proof (cases "f h < c")
  case False
  then show ?thesis
    using comp by (subst find_root_limits_hig.simps) (simp add: fgt_def)
next
  case True
  with pos have h: "0 < h" by simp
  from real_arch_pow[OF k] obtain n where "10 ^ 10 / h < k ^ n" by blast
  with h have "10 ^ 10 < h * k ^ n" by (simp add: field_simps)
  from find_root_limits_hig_steps[OF comp k h this] show ?thesis .
qed


lemma bracket_decreasing:
  assumes low: "find_root_limits_low target (Fin c) (Fin kl) (Fin l) = Some rl"
    and hig: "find_root_limits_hig target (Fin c) (Fin kh) (Fin h) = Some rh"
    and comp: "\<forall>x. target (Fin x) = Inr (Fin (f x))"
    and mono: "\<forall>x y. x \<le> y \<longrightarrow> f y \<le> f x"
    and cross: "0 \<le> x0" "f x0 = c"
    and kl: "0 < kl" "kl \<le> 1" and kh: "1 \<le> kh"
    and init: "l \<le> h"
  shows "\<exists>L H. rl = Inr (Fin L) \<and> rh = Inr (Fin H) \<and>
           ((c \<le> f L \<and> f H \<le> c) \<or> L < 1 / 10 ^ 10 \<or> 10 ^ 10 < H)"
proof -
  from find_root_limits_low_decreasing[OF low comp kl mono]
  obtain L where L: "rl = Inr (Fin L)" "(L = l \<and> f l \<le> c) \<or> L < 1 / 10 ^ 10" by blast
  from cross have "c \<le> f x0" by simp
  from find_root_limits_hig_decreasing[OF hig comp kh mono cross(1) this]
  obtain H where H: "rh = Inr (Fin H)" "(H = h \<and> c \<le> f h) \<or> 10 ^ 10 < H" by blast
  from mono init have "f h \<le> f l" by blast
  with L H show ?thesis by auto
qed

text \<open>
  What the two loops establish for any target with finite values: a bound that is not
  past its bail-out limit has the target at or below \<open>loc\<close> (lower bound) and at or
  above \<open>loc\<close> (upper bound).
\<close>

lemma find_root_limits_low_exit:
  assumes ret: "find_root_limits_low target (Fin c) (Fin k) (Fin l) = Some r"
    and comp: "\<forall>x. target (Fin x) = Inr (Fin (f x))"
  shows "\<exists>L. r = Inr (Fin L) \<and> (f L \<le> c \<or> L < 1 / 10 ^ 10)"
proof -
  define P where "P = (\<lambda>tgt loc factor low (res :: pyerror + pyfloat).
      tgt = target \<longrightarrow> loc = Fin c \<longrightarrow> factor = Fin k \<longrightarrow>
      (\<forall>l. low = Fin l \<longrightarrow>
         (\<exists>L. res = Inr (Fin L) \<and> (f L \<le> c \<or> L < 1 / 10 ^ 10))))"
  have "P target (Fin c) (Fin k) (Fin l) r"
  proof (rule find_root_limits_low.raw_induct[where P = P, OF _ ret])
    fix self tgt loc factor low res
    assume ih: "\<And>tgt loc factor low res. self tgt loc factor low = Some res \<Longrightarrow> P tgt loc factor low res"
      and step: "(case tgt low of
        Inl e \<Rightarrow> Some (Inl e)
      | Inr v \<Rightarrow>
          if fgt v loc
          then (if flt (fmul low factor) (Fin (1 / 10 ^ 10)) then Some (Inr (fmul low factor))
                else self tgt loc factor (fmul low factor))
          else Some (Inr low)) = Some res"
    show "P tgt loc factor low res"
      unfolding P_def
    proof (intro impI allI)
      fix l
      assume tgt: "tgt = target" and loc: "loc = Fin c" and factor: "factor = Fin k"
        and low: "low = Fin l"
      from comp have cl: "target (Fin l) = Inr (Fin (f l))" by blast
      from step have body:
        "(if c < f l
          then (if l * k < 1 / 10 ^ 10 then Some (Inr (Fin (l * k)))
                else self target (Fin c) (Fin k) (Fin (l * k)))
          else Some (Inr (Fin l))) = Some res"
        unfolding tgt low loc factor cl by (simp add: fgt_def cong: if_cong)
      show "\<exists>L. res = Inr (Fin L) \<and> (f L \<le> c \<or> L < 1 / 10 ^ 10)"
      proof (cases "c < f l")
        case False
        with body have "res = Inr (Fin l)" by simp
        with False show ?thesis by simp
      next
        case True
        show ?thesis
        proof (cases "l * k < 1 / 10 ^ 10")
          case True
          with body \<open>c < f l\<close> have "res = Inr (Fin (l * k))" by simp
          with True show ?thesis by blast
        next
          case False
          with body \<open>c < f l\<close>
          have "self target (Fin c) (Fin k) (Fin (l * k)) = Some res" by simp
          from ih[OF this] show ?thesis unfolding P_def by auto
        qed
      qed
    qed
  qed
  then show ?thesis unfolding P_def by blast
qed

lemma find_root_limits_hig_exit:
  assumes ret: "find_root_limits_hig target (Fin c) (Fin k) (Fin h) = Some r"
    and comp: "\<forall>x. target (Fin x) = Inr (Fin (f x))"
  shows "\<exists>H. r = Inr (Fin H) \<and> (c \<le> f H \<or> 10 ^ 10 < H)"
proof -
  define P where "P = (\<lambda>tgt loc factor hig (res :: pyerror + pyfloat).
      tgt = target \<longrightarrow> loc = Fin c \<longrightarrow> factor = Fin k \<longrightarrow>
      (\<forall>h. hig = Fin h \<longrightarrow>
         (\<exists>H. res = Inr (Fin H) \<and> (c \<le> f H \<or> 10 ^ 10 < H))))"
  have "P target (Fin c) (Fin k) (Fin h) r"
  proof (rule find_root_limits_hig.raw_induct[where P = P, OF _ ret])
    fix self tgt loc factor hig res
    assume ih: "\<And>tgt loc factor hig res. self tgt loc factor hig = Some res \<Longrightarrow> P tgt loc factor hig res"
      and step: "(case tgt hig of
        Inl e \<Rightarrow> Some (Inl e)
      | Inr v \<Rightarrow>
          if flt v loc
          then (if fgt (fmul hig factor) (Fin (10 ^ 10)) then Some (Inr (fmul hig factor))
                else self tgt loc factor (fmul hig factor))
          else Some (Inr hig)) = Some res"
    show "P tgt loc factor hig res"
      unfolding P_def
    proof (intro impI allI)
      fix h
      assume tgt: "tgt = target" and loc: "loc = Fin c" and factor: "factor = Fin k"
        and hig: "hig = Fin h"
      from comp have cl: "target (Fin h) = Inr (Fin (f h))" by blast
      from step have body:
        "(if f h < c
          then (if 10 ^ 10 < h * k then Some (Inr (Fin (h * k)))
                else self target (Fin c) (Fin k) (Fin (h * k)))
          else Some (Inr (Fin h))) = Some res"
        unfolding tgt hig loc factor cl by (simp add: fgt_def cong: if_cong)
      show "\<exists>H. res = Inr (Fin H) \<and> (c \<le> f H \<or> 10 ^ 10 < H)"
      proof (cases "f h < c")
        case False
        with body have "res = Inr (Fin h)" by simp
        with False show ?thesis by simp
      next
        case True
        show ?thesis
        proof (cases "10 ^ 10 < h * k")
          case True
          with body \<open>f h < c\<close> have "res = Inr (Fin (h * k))" by simp
          with True show ?thesis by blast
        next
          case False
          with body \<open>f h < c\<close>
          have "self target (Fin c) (Fin k) (Fin (h * k)) = Some res" by simp
          from ih[OF this] show ?thesis unfolding P_def by auto
        qed
      qed
    qed
  qed
  then show ?thesis unfolding P_def by blast
qed

lemma find_root_limits_exit:
  assumes "find_root_limits target (Fin loc) (Fin low_ini) (Fin hig_ini) = Some (Inr (low, hig))"
    and comp: "\<forall>x. target (Fin x) = Inr (Fin (f x))"
  shows "\<exists>L H. low = Fin L \<and> hig = Fin H \<and> (f L \<le> loc \<or> L < 1 / 10 ^ 10)
           \<and> (loc \<le> f H \<or> 10 ^ 10 < H)"
proof -
  from assms(1) obtain rl rh where
    rl: "find_root_limits_low target (Fin loc) (Fin (1 / 2)) (Fin low_ini) = Some (Inr rl)"
    and rh: "find_root_limits_hig target (Fin loc) (Fin 2) (Fin hig_ini) = Some (Inr rh)"
    and eq: "low = rl" "hig = rh"
    by (auto simp: find_root_limits_def split: option.splits sum.splits)
  from find_root_limits_low_exit[OF rl comp] find_root_limits_hig_exit[OF rh comp] eq
  show ?thesis by auto
qed

text \<open>
  Claim C5. Let the target be a decreasing real function that takes the value \<open>loc\<close> at
  some point of the interval from 1e-10 to 1e10, and let the initial guesses satisfy
  \<open>low_ini \<le> hig_ini\<close> (the defaults 1.0 and 1.0 do). Then \<^verbatim>\<open>find_root_limits\<close>
  returns a pair \<open>(low, hig)\<close> with \<open>computer(low) \<ge> loc \<ge> computer(hig)\<close>, unless
  \<open>low < 1e-10\<close> or \<open>hig > 1e10\<close>. The same holds for the version of madstats,
  which always starts from 1.0 and 1.0.
\<close>

theorem C5_find_root_limits_bracket:
  assumes comp: "\<forall>x. target (Fin x) = Inr (Fin (f x))"
    and mono: "\<forall>x y. x \<le> y \<longrightarrow> f y \<le> f x"
    and cross: "1 / 10 ^ 10 \<le> x0" "x0 \<le> 10 ^ 10" "f x0 = loc"
    and init: "low_ini \<le> hig_ini"
  shows "(\<exists>L H. find_root_limits target (Fin loc) (Fin low_ini) (Fin hig_ini)
                  = Some (Inr (Fin L, Fin H)) \<and>
                ((loc \<le> f L \<and> f H \<le> loc) \<or> L < 1 / 10 ^ 10 \<or> 10 ^ 10 < H))
       \<and> (\<exists>L H. find_root_limits_madstats target (Fin loc) = Some (Inr (Fin L, Fin H)) \<and>
                ((loc \<le> f L \<and> f H \<le> loc) \<or> L < 1 / 10 ^ 10 \<or> 10 ^ 10 < H))"
proof -
  have x0: "0 \<le> x0"
  proof -
    have "(0::real) \<le> 1 / 10 ^ 10" by simp
    with cross(1) show ?thesis by linarith
  qed
  have pos: "f h < loc \<longrightarrow> 0 < h" for h
  proof
    assume "f h < loc"
    have "\<not> h \<le> x0"
    proof
      assume "h \<le> x0"
      with mono have "f x0 \<le> f h" by blast
      with cross(3) \<open>f h < loc\<close> show False by simp
    qed
    with x0 show "0 < h" by simp
  qed
  have spey: "\<exists>L H. find_root_limits target (Fin loc) (Fin low_ini) (Fin hig_ini)
                  = Some (Inr (Fin L, Fin H)) \<and>
                ((loc \<le> f L \<and> f H \<le> loc) \<or> L < 1 / 10 ^ 10 \<or> 10 ^ 10 < H)"
  proof -
    from find_root_limits_low_returns[OF comp, of "1 / 2" loc low_ini]
    obtain rl where rl: "find_root_limits_low target (Fin loc) (Fin (1 / 2)) (Fin low_ini) = Some rl"
      by auto
    from find_root_limits_hig_returns[OF comp _ pos, of 2 hig_ini]
    obtain rh where rh: "find_root_limits_hig target (Fin loc) (Fin 2) (Fin hig_ini) = Some rh"
      by auto
    from bracket_decreasing[OF rl rh comp mono x0 cross(3) _ _ _ init]
    obtain L H where "rl = Inr (Fin L)" "rh = Inr (Fin H)"
        "(loc \<le> f L \<and> f H \<le> loc) \<or> L < 1 / 10 ^ 10 \<or> 10 ^ 10 < H"
      by auto
    with rl rh show ?thesis by (simp add: find_root_limits_def)
  qed
  have madstats: "\<exists>L H. find_root_limits_madstats target (Fin loc) = Some (Inr (Fin L, Fin H)) \<and>
                ((loc \<le> f L \<and> f H \<le> loc) \<or> L < 1 / 10 ^ 10 \<or> 10 ^ 10 < H)"
  proof -
    from find_root_limits_low_returns[OF comp, of "1 / 10" loc 1]
    obtain rl where rl: "find_root_limits_low target (Fin loc) (Fin (1 / 10)) (Fin 1) = Some rl"
      by auto
    from find_root_limits_hig_returns[OF comp _ pos, of 10 1]
    obtain rh where rh: "find_root_limits_hig target (Fin loc) (Fin 10) (Fin 1) = Some rh"
      by auto
    from bracket_decreasing[OF rl rh comp mono x0 cross(3)]
    obtain L H where "rl = Inr (Fin L)" "rh = Inr (Fin H)"
        "(loc \<le> f L \<and> f H \<le> loc) \<or> L < 1 / 10 ^ 10 \<or> 10 ^ 10 < H"
      by auto
    with rl rh show ?thesis by (simp add: find_root_limits_madstats_def)
  qed
  from spey madstats show ?thesis by blast
qed

theorem C5_find_root_limits_bracket_witness:
  "(\<exists>L H. find_root_limits (\<lambda>x. case x of Fin v \<Rightarrow> Inr (Fin (2 - v)) | _ \<Rightarrow> Inr NaN)
              (Fin 0) (Fin 1) (Fin 4) = Some (Inr (Fin L, Fin H)) \<and>
           ((0 \<le> 2 - L \<and> 2 - H \<le> 0) \<or> L < 1 / 10 ^ 10 \<or> 10 ^ 10 < H))
   \<and> (\<exists>L H. find_root_limits_madstats (\<lambda>x. case x of Fin v \<Rightarrow> Inr (Fin (2 - v)) | _ \<Rightarrow> Inr NaN)
              (Fin 0) = Some (Inr (Fin L, Fin H)) \<and>
           ((0 \<le> 2 - L \<and> 2 - H \<le> 0) \<or> L < 1 / 10 ^ 10 \<or> 10 ^ 10 < H))"
  using C5_find_root_limits_bracket[of "\<lambda>x. case x of Fin v \<Rightarrow> Inr (Fin (2 - v)) | _ \<Rightarrow> Inr NaN"
      "\<lambda>v. 2 - v" 2 0 1 4]
  by simp

text \<open>
  Without the order of the initial guesses the bracket can be inverted: for the target
  \<open>2 - x\<close>, \<open>loc = 0\<close>, \<open>low_ini = 3\<close> and \<open>hig_ini = 1\<close> neither loop runs, the
  pair \<open>(3, 1)\<close> is returned and \<open>computer(3) = - 1 < loc\<close>.
\<close>

theorem C5_find_root_limits_counterexample:
  "find_root_limits (\<lambda>x. case x of Fin v \<Rightarrow> Inr (Fin (2 - v)) | _ \<Rightarrow> Inr NaN)
      (Fin 0) (Fin 3) (Fin 1) = Some (Inr (Fin 3, Fin 1))
   \<and> \<not> ((0::real) \<le> 2 - 3) \<and> \<not> ((3::real) < 1 / 10 ^ 10) \<and> \<not> ((10::real) ^ 10 < 1)"
  by (simp add: find_root_limits_def find_root_limits_low.simps find_root_limits_hig.simps
      fgt_def)

section \<open>Properties of the upper-limit target and of the initial guesses\<close>





text \<open>
  Claim C6. \<^verbatim>\<open>find_poi_upper_limit\<close> replaces every initial guess that is not NaN,
  the finite ones included, by 1.0, and keeps NaN: with \<open>low_init = 2.0\<close> and
  \<open>hig_init = 5.0\<close> it behaves as with 1.0 and 1.0, and the bracketing
  \<^verbatim>\<open>find_root_limits\<close> is started from 1.0 and 1.0.
\<close>

theorem C6_initial_guesses_replaced:
  "initial_guess (Some (Fin x)) = Fin 1
   \<and> initial_guess None = Fin 1
   \<and> initial_guess (Some NaN) = NaN
   \<and> find_poi_upper_limit compute_teststatistics compute_confidence_level_fun toms748
       maximum_likelihood logpdf maximum_asimov_likelihood asimov_logpdf
       expected confidence_level allow_negative_signal (Some (Fin 2)) (Some (Fin 5))
       expected_pvalue maxiter =
     find_poi_upper_limit compute_teststatistics compute_confidence_level_fun toms748
       maximum_likelihood logpdf maximum_asimov_likelihood asimov_logpdf
       expected confidence_level allow_negative_signal (Some (Fin 1)) (Some (Fin 1))
       expected_pvalue maxiter
   \<and> find_poi_upper_limit compute_teststatistics compute_confidence_level_fun toms748
       maximum_likelihood logpdf maximum_asimov_likelihood asimov_logpdf
       observed confidence_level allow_negative_signal (Some (Fin 2)) (Some (Fin 5))
       ''nominal'' maxiter =
     (case find_root_limits
             (\<lambda>poi_test. computer compute_teststatistics compute_confidence_level_fun
                maximum_likelihood logpdf maximum_asimov_likelihood asimov_logpdf
                observed confidence_level (test_stat_of allow_negative_signal) poi_test 0)
             (Fin 0) (Fin 1) (Fin 1) of
        None \<Rightarrow> None
      | Some (Inl e) \<Rightarrow> Some (Inl e)
      | Some (Inr (low, hig)) \<Rightarrow>
          (case toms748
                  (\<lambda>poi_test. computer compute_teststatistics compute_confidence_level_fun
                     maximum_likelihood logpdf maximum_asimov_likelihood asimov_logpdf
                     observed confidence_level (test_stat_of allow_negative_signal) poi_test 0)
                  low hig maxiter of
             Inl e \<Rightarrow> Some (Inl e)
           | Inr (x0, converged) \<Rightarrow>
               Some (Inr (Single x0,
                 if converged then [] else [RuntimeWarning ''Optimiser did not converge.'']))))"
proof -
  have g: "initial_guess (Some (Fin x)) = Fin 1" for x
    by (simp add: initial_guess_def)
  show ?thesis
    by (simp add: g find_poi_upper_limit_def Let_def index_range_def initial_guess_def
        split: option.splits sum.splits prod.splits)
qed

section \<open>Properties of the combiner\<close>

lemma is_nan_iff: "is_nan x = (x = NaN)"
  by (cases x) simp_all

lemma fadd_NaN_right: "fadd x NaN = NaN"
  by (cases x) simp_all

lemma foldl_fadd_NaN: "foldl fadd NaN vs = NaN"
  by (induction vs) simp_all

lemma likelihood_loop_sum:
  "map (\<lambda>m. likelihood m poi_test expected (current_kwargs kwargs m)) models = map Inr vs \<Longrightarrow>
   likelihood_loop format_3f models poi_test expected kwargs nll ws =
     Inr (foldl fadd nll vs, ws)"
proof (induction models arbitrary: nll vs)
  case Nil
  then show ?case by simp
next
  case (Cons m models)
  from Cons.prems obtain v vs' where vs: "vs = v # vs'"
    and m: "likelihood m poi_test expected (current_kwargs kwargs m) = Inr v"
    and rest: "map (\<lambda>m. likelihood m poi_test expected (current_kwargs kwargs m)) models = map Inr vs'"
    by (cases vs) auto
  show ?case
  proof (cases "is_nan (fadd nll v)")
    case True
    then show ?thesis by (simp add: vs m is_nan_iff foldl_fadd_NaN)
  next
    case False
    then show ?thesis by (simp add: vs m Cons.IH[OF rest])
  qed
qed

lemma likelihood_loop_invalid:
  "map (\<lambda>m. likelihood m poi_test expected (current_kwargs kwargs m)) pre = map Inr vs \<Longrightarrow>
   \<not> is_nan (foldl fadd nll vs) \<Longrightarrow>
   likelihood m poi_test expected (current_kwargs kwargs m) = Inl (NegativeExpectedYields msg) \<Longrightarrow>
   likelihood_loop format_3f (pre @ m # post) poi_test expected kwargs nll ws =
     Inr (NaN, ws @ [RuntimeWarning (msg @ [CHR 0x0A] @ ''Setting NLL('' @ format_3f poi_test
                                      @ '') = nan'')])"
proof (induction pre arbitrary: nll vs)
  case Nil
  then show ?case by simp
next
  case (Cons p pre)
  from Cons.prems(1) obtain v vs' where vs: "vs = v # vs'"
    and p: "likelihood p poi_test expected (current_kwargs kwargs p) = Inr v"
    and rest: "map (\<lambda>m. likelihood m poi_test expected (current_kwargs kwargs m)) pre = map Inr vs'"
    by (cases vs) auto
  from Cons.prems(2) have nn: "\<not> is_nan (foldl fadd (fadd nll v) vs')" by (simp add: vs)
  then have "\<not> is_nan (fadd nll v)"
    by (auto simp: is_nan_iff foldl_fadd_NaN)
  then show ?case
    by (simp add: p Cons.IH[OF rest nn Cons.prems(3)])
qed

text \<open>
  Claim C1. When every member returns a negative log-likelihood,
  \<^verbatim>\<open>StatisticsCombiner.likelihood(poi_test, expected)\<close> returns the sum of the members'
  values, each member called with the keyword arguments of its backend, and issues no
  warning. When a member raises \<^verbatim>\<open>NegativeExpectedYields\<close>, the members before it
  having returned values whose sum is not NaN, the result is NaN with one
  \<^verbatim>\<open>RuntimeWarning\<close>, whatever the members after it are.
\<close>

theorem C1_combiner_likelihood:
  "(map (\<lambda>m. likelihood m poi_test expected (current_kwargs kwargs m)) models = map Inr vs \<longrightarrow>
      StatisticsCombiner_likelihood format_3f models poi_test expected True kwargs =
        Inr (foldl fadd (Fin 0) vs, []))
   \<and> (map (\<lambda>m. likelihood m poi_test expected (current_kwargs kwargs m)) pre = map Inr vs \<longrightarrow>
      \<not> is_nan (foldl fadd (Fin 0) vs) \<longrightarrow>
      likelihood m poi_test expected (current_kwargs kwargs m) = Inl (NegativeExpectedYields msg) \<longrightarrow>
      StatisticsCombiner_likelihood format_3f (pre @ m # post) poi_test expected return_nll kwargs =
        Inr (NaN, [RuntimeWarning (msg @ [CHR 0x0A] @ ''Setting NLL('' @ format_3f poi_test
                                       @ '') = nan'')]))"
  by (simp add: StatisticsCombiner_likelihood_def likelihood_loop_sum likelihood_loop_invalid)

theorem C1_combiner_likelihood_witness:
  "StatisticsCombiner_likelihood (\<lambda>p. ''1.000'')
     [\<lparr>analysis = ''a'', backend_type = ''pyhf'', likelihood = (\<lambda>p e (kw :: string \<rightharpoonup> nat). Inr (Fin 1))\<rparr>,
      \<lparr>analysis = ''b'', backend_type = ''sl'', likelihood = (\<lambda>p e kw. Inr (Fin 2))\<rparr>]
     (Fin 1) observed True Map.empty = Inr (Fin 3, [])
   \<and> StatisticsCombiner_likelihood (\<lambda>p. ''1.000'')
     ([\<lparr>analysis = ''a'', backend_type = ''pyhf'', likelihood = (\<lambda>p e (kw :: string \<rightharpoonup> nat). Inr (Fin 1))\<rparr>]
      @ \<lparr>analysis = ''c'', backend_type = ''sl'',
          likelihood = (\<lambda>p e kw. Inl (NegativeExpectedYields ''negative yields''))\<rparr>
      # [\<lparr>analysis = ''b'', backend_type = ''sl'', likelihood = (\<lambda>p e kw. Inr (Fin 2))\<rparr>])
     (Fin 1) observed True Map.empty =
     Inr (NaN, [RuntimeWarning (''negative yields'' @ [CHR 0x0A] @ ''Setting NLL('' @ ''1.000''
                                  @ '') = nan'')])"
proof -
  let ?a = "\<lparr>analysis = ''a'', backend_type = ''pyhf'',
              likelihood = (\<lambda>p e (kw :: string \<rightharpoonup> nat). Inr (Fin 1) :: pyerror + pyfloat)\<rparr>"
  let ?b = "\<lparr>analysis = ''b'', backend_type = ''sl'',
              likelihood = (\<lambda>p e (kw :: string \<rightharpoonup> nat). Inr (Fin 2) :: pyerror + pyfloat)\<rparr>"
  let ?c = "\<lparr>analysis = ''c'', backend_type = ''sl'',
              likelihood = (\<lambda>p e (kw :: string \<rightharpoonup> nat).
                 Inl (NegativeExpectedYields ''negative yields'') :: pyerror + pyfloat)\<rparr>"
  from C1_combiner_likelihood[where models = "[?a, ?b]" and vs = "[Fin 1, Fin 2]"
      and poi_test = "Fin 1" and expected = observed and kwargs = Map.empty
      and format_3f = "\<lambda>p. ''1.000''"]
  have one: "StatisticsCombiner_likelihood (\<lambda>p. ''1.000'') [?a, ?b] (Fin 1) observed True Map.empty
      = Inr (Fin 3, [])"
    by simp
  from C1_combiner_likelihood[where pre = "[?a]" and vs = "[Fin 1]" and m = ?c and post = "[?b]"
      and msg = "''negative yields''" and return_nll = True
      and poi_test = "Fin 1" and expected = observed and kwargs = Map.empty
      and format_3f = "\<lambda>p. ''1.000''"]
  have two: "StatisticsCombiner_likelihood (\<lambda>p. ''1.000'') ([?a] @ ?c # [?b]) (Fin 1) observed True
      Map.empty =
     Inr (NaN, [RuntimeWarning (''negative yields'' @ [CHR 0x0A] @ ''Setting NLL('' @ ''1.000''
                                  @ '') = nan'')])"
    by simp
  from one two show ?thesis by simp
qed

section \<open>Properties of the recorder\<close>

text \<open>
  Claim C8. When the switch is off \<^verbatim>\<open>get_poi_test\<close> and
  \<^verbatim>\<open>get_maximum_likelihood\<close> return the missing-entry value whatever was recorded,
  while \<^verbatim>\<open>record_poi_test\<close> and \<^verbatim>\<open>record_maximum_likelihood\<close> still write
  their entry. \<^verbatim>\<open>turn_on\<close> and \<^verbatim>\<open>turn_off\<close> leave both dictionaries as they
  are, so that after the switch is turned on again an entry is visible whether it was
  recorded with the switch on or off.
\<close>

theorem C8_recorder_switch:
  "(\<not> RECORD self \<longrightarrow>
      get_poi_test float32 self expected poi_test = None
      \<and> get_maximum_likelihood self expected = None
      \<and> poi_test_record (record_poi_test float32 self expected poi_test nll) expected
            (float32 poi_test) = Some (float32 nll)
      \<and> maximum_likelihood_record (record_maximum_likelihood float32 self expected poi_test nll)
            expected = Some (float32 poi_test, float32 nll))
   \<and> poi_test_record (turn_off self) = poi_test_record self
   \<and> maximum_likelihood_record (turn_off self) = maximum_likelihood_record self
   \<and> poi_test_record (turn_on self) = poi_test_record self
   \<and> maximum_likelihood_record (turn_on self) = maximum_likelihood_record self
   \<and> (\<not> is_nan (float32 poi_test) \<longrightarrow>
      get_poi_test float32
        (turn_on (turn_off (record_poi_test float32 (turn_on self) expected poi_test nll)))
        expected poi_test = Some (float32 nll)
      \<and> get_poi_test float32
        (turn_on (record_poi_test float32 (turn_off self) expected poi_test nll))
        expected poi_test = Some (float32 nll))
   \<and> get_maximum_likelihood
        (turn_on (turn_off (record_maximum_likelihood float32 (turn_on self) expected poi_test nll)))
        expected =
      get_maximum_likelihood
        (record_maximum_likelihood float32 (turn_on self) expected poi_test nll) expected"
  by (simp add: get_poi_test_def get_maximum_likelihood_def record_poi_test_def
      record_maximum_likelihood_def turn_on_def turn_off_def is_on_def Let_def
      split: option.splits prod.splits)

theorem C8_recorder_switch_witness:
  "get_poi_test (\<lambda>x. x) Recorder_init observed (Fin 1) = None
   \<and> get_maximum_likelihood Recorder_init observed = None
   \<and> poi_test_record (record_poi_test (\<lambda>x. x) Recorder_init observed (Fin 1) (Fin 5)) observed
        (Fin 1) = Some (Fin 5)
   \<and> maximum_likelihood_record
        (record_maximum_likelihood (\<lambda>x. x) Recorder_init observed (Fin 1) (Fin 5)) observed
        = Some (Fin 1, Fin 5)
   \<and> get_poi_test (\<lambda>x. x)
        (turn_on (turn_off (record_poi_test (\<lambda>x. x) (turn_on Recorder_init) observed (Fin 1) (Fin 5))))
        observed (Fin 1) = Some (Fin 5)
   \<and> get_poi_test (\<lambda>x. x)
        (turn_on (record_poi_test (\<lambda>x. x) (turn_off Recorder_init) observed (Fin 1) (Fin 5)))
        observed (Fin 1) = Some (Fin 5)"
  using C8_recorder_switch[of Recorder_init "\<lambda>x. x" observed "Fin 1" "Fin 5"]
  by (simp add: Recorder_init_def)

text \<open>
  Recording with the switch off is not a no-op: the state changes, and the entry is
  returned once the switch is on.
\<close>

theorem C8_recorder_switch_counterexample:
  "\<not> RECORD Recorder_init
   \<and> record_poi_test (\<lambda>x. x) Recorder_init observed (Fin 1) (Fin 5) \<noteq> Recorder_init
   \<and> record_maximum_likelihood (\<lambda>x. x) Recorder_init observed (Fin 1) (Fin 5) \<noteq> Recorder_init
   \<and> get_poi_test (\<lambda>x. x)
        (turn_on (record_poi_test (\<lambda>x. x) Recorder_init observed (Fin 1) (Fin 5)))
        observed (Fin 1) = Some (Fin 5)"
proof -
  have a: "poi_test_record (record_poi_test (\<lambda>x. x) Recorder_init observed (Fin 1) (Fin 5))
             observed (Fin 1) \<noteq> poi_test_record Recorder_init observed (Fin 1)"
    by (simp add: record_poi_test_def Recorder_init_def)
  have b: "maximum_likelihood_record
             (record_maximum_likelihood (\<lambda>x. x) Recorder_init observed (Fin 1) (Fin 5)) observed
           \<noteq> maximum_likelihood_record Recorder_init observed"
    by (simp add: record_maximum_likelihood_def get_maximum_likelihood_def is_on_def
        Recorder_init_def)
  have c: "get_poi_test (\<lambda>x. x)
        (turn_on (record_poi_test (\<lambda>x. x) Recorder_init observed (Fin 1) (Fin 5)))
        observed (Fin 1) = Some (Fin 5)"
    by (simp add: get_poi_test_def record_poi_test_def turn_on_def is_on_def Recorder_init_def)
  have d: "\<not> RECORD Recorder_init" by (simp add: Recorder_init_def)
  from a b c d show ?thesis by metis
qed

lemma not_flt_iff_fle: "\<not> is_nan a \<Longrightarrow> \<not> is_nan b \<Longrightarrow> (\<not> flt a b) = fle b a"
  by (cases a; cases b) simp_all

lemma fle_refl: "\<not> is_nan a \<Longrightarrow> fle a a"
  by (cases a) simp_all

lemma fle_trans: "fle a b \<Longrightarrow> fle b c \<Longrightarrow> fle a c"
  by (cases a; cases b; cases c) simp_all

lemma record_maximum_likelihood_RECORD:
  "RECORD (record_maximum_likelihood float32 self expected poi_test nll) = RECORD self"
  by (simp add: record_maximum_likelihood_def Let_def)

lemma record_maximum_likelihood_step:
  assumes "RECORD self" and "maximum_likelihood_record self expected = Some (poi, stored)"
    and "\<not> is_nan stored" and "\<not> is_nan (rnd nll)"
  shows "maximum_likelihood_record
           (record_maximum_likelihood rnd self expected poi_test nll) expected
         = (if fle (rnd nll) stored then Some (rnd poi_test, rnd nll) else Some (poi, stored))"
  using assms not_flt_iff_fle[of stored "rnd nll"]
  by (auto simp: record_maximum_likelihood_def get_maximum_likelihood_def is_on_def Let_def)

lemma record_maximum_likelihood_sequence:
  assumes "RECORD self" and "maximum_likelihood_record self expected = Some (poi, stored)"
    and "\<not> is_nan stored"
    and "\<forall>c \<in> set calls. \<not> is_nan (float32 (snd c))"
  shows "\<exists>poi' final. maximum_likelihood_record
           (foldl (\<lambda>s c. record_maximum_likelihood float32 s expected (fst c) (snd c)) self calls)
           expected = Some (poi', final) \<and> \<not> is_nan final \<and> fle final stored"
  using assms
proof (induction calls arbitrary: self poi stored)
  case Nil
  then show ?case by (simp add: fle_refl)
next
  case (Cons c calls)
  let ?s = "record_maximum_likelihood float32 self expected (fst c) (snd c)"
  from Cons.prems(4) have new: "\<not> is_nan (float32 (snd c))" by simp
  note st = record_maximum_likelihood_step[where rnd = float32 and nll = "snd c"
      and poi_test = "fst c", OF Cons.prems(1,2,3) new]
  have on: "RECORD ?s" using Cons.prems(1) by (simp add: record_maximum_likelihood_RECORD)
  from Cons.prems(4) have rest: "\<forall>c \<in> set calls. \<not> is_nan (float32 (snd c))" by simp
  show ?case
  proof (cases "fle (float32 (snd c)) stored")
    case True
    with st have "maximum_likelihood_record ?s expected = Some (float32 (fst c), float32 (snd c))"
      by simp
    from Cons.IH[OF on this new rest] obtain poi' final where
      "maximum_likelihood_record
         (foldl (\<lambda>s c. record_maximum_likelihood float32 s expected (fst c) (snd c)) ?s calls)
         expected = Some (poi', final)" "\<not> is_nan final" "fle final (float32 (snd c))"
      by blast
    with True show ?thesis using fle_trans by auto
  next
    case False
    with st have "maximum_likelihood_record ?s expected = Some (poi, stored)" by simp
    from Cons.IH[OF on this Cons.prems(3) rest] show ?thesis by simp
  qed
qed

text \<open>
  Claim C9. With the switch on, \<^verbatim>\<open>record_maximum_likelihood\<close> replaces the slot of
  the expectation type when it is empty or when the stored value is not strictly lower
  than the new one, and leaves the slots of the other expectation types alone. When
  neither the stored nor the new value is NaN, the slot is replaced exactly when the new
  value is at most the stored one: for finite values the stored value becomes the minimum
  of the two, over any sequence of calls without NaN it never increases, and on a tie
  the new pair replaces the stored one.
\<close>

theorem C9_best_fit_slot:
  "(RECORD self \<longrightarrow>
      maximum_likelihood_record (record_maximum_likelihood float32 self expected poi_test nll)
        expected =
      (case maximum_likelihood_record self expected of
         None \<Rightarrow> Some (float32 poi_test, float32 nll)
       | Some (poi, stored) \<Rightarrow>
           if flt stored (float32 nll) then Some (poi, stored)
           else Some (float32 poi_test, float32 nll)))
   \<and> (RECORD self \<longrightarrow> maximum_likelihood_record self expected = Some (poi, stored) \<longrightarrow>
      \<not> is_nan stored \<longrightarrow> \<not> is_nan (float32 nll) \<longrightarrow>
      maximum_likelihood_record (record_maximum_likelihood float32 self expected poi_test nll)
        expected =
      (if fle (float32 nll) stored then Some (float32 poi_test, float32 nll)
       else Some (poi, stored)))
   \<and> (RECORD self \<longrightarrow> maximum_likelihood_record self expected = Some (poi, Fin old) \<longrightarrow>
      float32 nll = Fin new \<longrightarrow>
      (\<exists>poi'. maximum_likelihood_record
                (record_maximum_likelihood float32 self expected poi_test nll) expected
              = Some (poi', Fin (min old new))))
   \<and> (RECORD self \<longrightarrow> maximum_likelihood_record self expected = Some (poi, stored) \<longrightarrow>
      \<not> is_nan stored \<longrightarrow> float32 nll = stored \<longrightarrow>
      maximum_likelihood_record
        (record_maximum_likelihood float32 self expected poi_test nll) expected
      = Some (float32 poi_test, stored))
   \<and> (expected' \<noteq> expected \<longrightarrow>
      maximum_likelihood_record
        (record_maximum_likelihood float32 self expected poi_test nll) expected'
      = maximum_likelihood_record self expected')
   \<and> (RECORD self \<longrightarrow> maximum_likelihood_record self expected = Some (poi, stored) \<longrightarrow>
      \<not> is_nan stored \<longrightarrow> (\<forall>c \<in> set calls. \<not> is_nan (float32 (snd c))) \<longrightarrow>
      (\<exists>poi' final. maximum_likelihood_record
           (foldl (\<lambda>s c. record_maximum_likelihood float32 s expected (fst c) (snd c)) self calls)
           expected = Some (poi', final) \<and> \<not> is_nan final \<and> fle final stored))"
proof -
  have c1: "RECORD self \<longrightarrow>
      maximum_likelihood_record (record_maximum_likelihood float32 self expected poi_test nll)
        expected =
      (case maximum_likelihood_record self expected of
         None \<Rightarrow> Some (float32 poi_test, float32 nll)
       | Some (poi, stored) \<Rightarrow>
           if flt stored (float32 nll) then Some (poi, stored)
           else Some (float32 poi_test, float32 nll))"
    by (auto simp: record_maximum_likelihood_def get_maximum_likelihood_def is_on_def Let_def
        split: option.splits prod.splits)
  have c2: "RECORD self \<longrightarrow> maximum_likelihood_record self expected = Some (poi, stored) \<longrightarrow>
      \<not> is_nan stored \<longrightarrow> \<not> is_nan (float32 nll) \<longrightarrow>
      maximum_likelihood_record (record_maximum_likelihood float32 self expected poi_test nll)
        expected =
      (if fle (float32 nll) stored then Some (float32 poi_test, float32 nll)
       else Some (poi, stored))"
    using record_maximum_likelihood_step[where rnd = float32 and self = self
        and expected = expected and poi = poi and stored = stored and nll = nll
        and poi_test = poi_test]
    by blast
  have c3: "RECORD self \<longrightarrow> maximum_likelihood_record self expected = Some (poi, Fin old) \<longrightarrow>
      float32 nll = Fin new \<longrightarrow>
      (\<exists>poi'. maximum_likelihood_record
                (record_maximum_likelihood float32 self expected poi_test nll) expected
              = Some (poi', Fin (min old new)))"
    by (auto simp: record_maximum_likelihood_def get_maximum_likelihood_def is_on_def Let_def
        min_def)
  have c4: "RECORD self \<longrightarrow> maximum_likelihood_record self expected = Some (poi, stored) \<longrightarrow>
      \<not> is_nan stored \<longrightarrow> float32 nll = stored \<longrightarrow>
      maximum_likelihood_record
        (record_maximum_likelihood float32 self expected poi_test nll) expected
      = Some (float32 poi_test, stored)"
    using record_maximum_likelihood_step[where rnd = float32 and self = self
        and expected = expected and poi = poi and stored = stored and nll = nll
        and poi_test = poi_test] fle_refl[of stored]
    by auto
  have c5: "expected' \<noteq> expected \<longrightarrow>
      maximum_likelihood_record
        (record_maximum_likelihood float32 self expected poi_test nll) expected'
      = maximum_likelihood_record self expected'"
    by (auto simp: record_maximum_likelihood_def Let_def)
  have c6: "RECORD self \<longrightarrow> maximum_likelihood_record self expected = Some (poi, stored) \<longrightarrow>
      \<not> is_nan stored \<longrightarrow> (\<forall>c \<in> set calls. \<not> is_nan (float32 (snd c))) \<longrightarrow>
      (\<exists>poi' final. maximum_likelihood_record
           (foldl (\<lambda>s c. record_maximum_likelihood float32 s expected (fst c) (snd c)) self calls)
           expected = Some (poi', final) \<and> \<not> is_nan final \<and> fle final stored)"
    using record_maximum_likelihood_sequence[of self expected poi stored calls float32] by blast
  from c1 c2 c3 c4 c5 c6 show ?thesis by blast
qed

theorem C9_best_fit_slot_witness:
  "maximum_likelihood_record
     (record_maximum_likelihood (\<lambda>x. x)
        (record_maximum_likelihood (\<lambda>x. x) (turn_on Recorder_init) observed (Fin 1) (Fin 5))
        observed (Fin 2) (Fin 3)) observed = Some (Fin 2, Fin 3)
   \<and> maximum_likelihood_record
     (record_maximum_likelihood (\<lambda>x. x)
        (record_maximum_likelihood (\<lambda>x. x) (turn_on Recorder_init) observed (Fin 1) (Fin 5))
        observed (Fin 2) (Fin 3)) apriori = None
   \<and> (\<exists>poi' final. maximum_likelihood_record
        (foldl (\<lambda>s c. record_maximum_likelihood (\<lambda>x. x) s observed (fst c) (snd c))
           (record_maximum_likelihood (\<lambda>x. x) (turn_on Recorder_init) observed (Fin 1) (Fin 5))
           [(Fin 2, Fin 7), (Fin 3, MInf)])
        observed = Some (poi', final) \<and> \<not> is_nan final \<and> fle final (Fin 5))"
proof -
  let ?s = "record_maximum_likelihood (\<lambda>x. x) (turn_on Recorder_init) observed (Fin 1) (Fin 5)"
  have on: "RECORD ?s"
    by (simp add: record_maximum_likelihood_def get_maximum_likelihood_def is_on_def Let_def
        turn_on_def Recorder_init_def)
  have st: "maximum_likelihood_record ?s observed = Some (Fin 1, Fin 5)"
    by (simp add: record_maximum_likelihood_def get_maximum_likelihood_def is_on_def Let_def
        turn_on_def Recorder_init_def)
  have st': "maximum_likelihood_record ?s apriori = None"
    by (simp add: record_maximum_likelihood_def get_maximum_likelihood_def is_on_def Let_def
        turn_on_def Recorder_init_def)
  have fin: "\<forall>c \<in> set [(Fin 2, Fin 7), (Fin 3, MInf)]. \<not> is_nan ((\<lambda>x. x) (snd c))"
    by simp
  from C9_best_fit_slot[where self = ?s and expected = observed and poi_test = "Fin 2"
      and nll = "Fin 3" and poi = "Fin 1" and stored = "Fin 5" and old = 5 and new = 3
      and expected' = apriori
      and calls = "[(Fin 2, Fin 7), (Fin 3, MInf)]", of "\<lambda>x. x"] on st st' fin
  show ?thesis by simp
qed

text \<open>
  On a tie the second writer's pair is stored. A NaN replaces the stored 5 and is then
  replaced by 9, so that the stored value has risen. With the switch off a higher value
  replaces a lower one.
\<close>

theorem C9_best_fit_slot_counterexample:
  "maximum_likelihood_record
     (record_maximum_likelihood (\<lambda>x. x)
        (record_maximum_likelihood (\<lambda>x. x) (turn_on Recorder_init) observed (Fin 1) (Fin 5))
        observed (Fin 2) (Fin 5)) observed = Some (Fin 2, Fin 5)
   \<and> maximum_likelihood_record
     (record_maximum_likelihood (\<lambda>x. x)
        (record_maximum_likelihood (\<lambda>x. x) (turn_on Recorder_init) observed (Fin 1) (Fin 5))
        observed (Fin 2) NaN) observed = Some (Fin 2, NaN)
   \<and> maximum_likelihood_record
     (record_maximum_likelihood (\<lambda>x. x)
        (record_maximum_likelihood (\<lambda>x. x)
           (record_maximum_likelihood (\<lambda>x. x) (turn_on Recorder_init) observed (Fin 1) (Fin 5))
           observed (Fin 2) NaN)
        observed (Fin 3) (Fin 9)) observed = Some (Fin 3, Fin 9)
   \<and> maximum_likelihood_record
     (record_maximum_likelihood (\<lambda>x. x)
        (record_maximum_likelihood (\<lambda>x. x) Recorder_init observed (Fin 1) (Fin 5))
        observed (Fin 2) (Fin 7)) observed = Some (Fin 2, Fin 7)"
  by (simp add: record_maximum_likelihood_def get_maximum_likelihood_def is_on_def Let_def
      turn_on_def Recorder_init_def)

section \<open>Properties of the optimiser adapter\<close>

text \<open>
  Claim C10. When \<^verbatim>\<open>fit\<close> is called with a fixed POI value and the address of a
  list of constraints, and reaches the fixed-POI branch (the initial parameters are
  chosen without an exception and hold the POI index, as a Python list that holds it
  does), in particular whenever it returns, it appends to the list at that address the
  constraint of type \<open>eq\<close> whose function is the entry of the parameter vector at the POI
  index minus the fixed value, and leaves every other list as it is. When the fixed POI
  value or the list is absent, no list of the store changes.
\<close>

theorem C10_fit_constraints:
  "(fixed_poi_value = Some v \<longrightarrow> constraints = Some a \<longrightarrow>
      parameters_or initial_parameters (suggested_init model_configuration) = Inr init_pars \<longrightarrow>
      poi_index model_configuration < length init_pars \<longrightarrow>
      fst (fit minimize heap func model_configuration do_grad hessian initial_parameters bounds
             fixed_poi_value logpdf constraints options) =
        heap(a := heap a @
          [Constraint ''eq''
             (\<lambda>vec. if poi_index model_configuration < length vec
                     then Inr (fsub (vec ! poi_index model_configuration) v)
                     else Inl IndexError)]))
   \<and> (fixed_poi_value = Some v \<longrightarrow> constraints = Some a \<longrightarrow>
      initial_parameters = Some (PyList xs) \<longrightarrow> poi_index model_configuration < length xs \<longrightarrow>
      fst (fit minimize heap func model_configuration do_grad hessian initial_parameters bounds
             fixed_poi_value logpdf constraints options) =
        heap(a := heap a @
          [Constraint ''eq''
             (\<lambda>vec. if poi_index model_configuration < length vec
                     then Inr (fsub (vec ! poi_index model_configuration) v)
                     else Inl IndexError)]))
   \<and> (fixed_poi_value = Some v \<longrightarrow> constraints = Some a \<longrightarrow>
      snd (fit minimize heap func model_configuration do_grad hessian initial_parameters bounds
             fixed_poi_value logpdf constraints options) = Inr res \<longrightarrow>
      fst (fit minimize heap func model_configuration do_grad hessian initial_parameters bounds
             fixed_poi_value logpdf constraints options) =
        heap(a := heap a @
          [Constraint ''eq''
             (\<lambda>vec. if poi_index model_configuration < length vec
                     then Inr (fsub (vec ! poi_index model_configuration) v)
                     else Inl IndexError)]))
   \<and> (fixed_poi_value = None \<or> constraints = None \<longrightarrow>
      fst (fit minimize heap func model_configuration do_grad hessian initial_parameters bounds
             fixed_poi_value logpdf constraints options) = heap)"
proof -
  have list: "parameters_or (Some (PyList xs)) other = Inr xs"
    if "poi_index model_configuration < length xs" for other
    using that by (cases xs) simp_all
  show ?thesis
    by (auto simp: fit_def Let_def fixed_poi_constraint_def list
        split: sum.splits option.splits if_splits)
qed

theorem C10_fit_constraints_witness:
  "fst (fit (\<lambda>f init_pars do_grad (hessian :: unit option) bounds constraints options.
               Inr (Fin 0, init_pars))
          (\<lambda>a. []) () \<lparr>poi_index = 0, suggested_init = [Fin 1, Fin 1],
                       fixed_poi_bounds = (\<lambda>p. [(Fin 0, Fin 10), (Fin 0, Fin 10)])\<rparr>
          False None (Some (PyList [Fin 3, Fin 4])) None (Some (Fin 2)) None (Some 7) Map.empty) 7
     = [Constraint ''eq'' (\<lambda>vec. if 0 < length vec then Inr (fsub (vec ! 0) (Fin 2))
                                   else Inl IndexError)]
   \<and> constraint_type (hd (fst (fit (\<lambda>f init_pars do_grad (hessian :: unit option) bounds
               constraints options. Inr (Fin 0, init_pars))
          (\<lambda>a. []) () \<lparr>poi_index = 0, suggested_init = [Fin 1, Fin 1],
                       fixed_poi_bounds = (\<lambda>p. [(Fin 0, Fin 10), (Fin 0, Fin 10)])\<rparr>
          False None (Some (PyList [Fin 3, Fin 4])) None (Some (Fin 2)) None (Some 7) Map.empty) 7))
     = ''eq''
   \<and> constraint_fun (hd (fst (fit (\<lambda>f init_pars do_grad (hessian :: unit option) bounds
               constraints options. Inr (Fin 0, init_pars))
          (\<lambda>a. []) () \<lparr>poi_index = 0, suggested_init = [Fin 1, Fin 1],
                       fixed_poi_bounds = (\<lambda>p. [(Fin 0, Fin 10), (Fin 0, Fin 10)])\<rparr>
          False None (Some (PyList [Fin 3, Fin 4])) None (Some (Fin 2)) None (Some 7) Map.empty) 7))
        [Fin 5, Fin 4] = Inr (Fin 3)
   \<and> fst (fit (\<lambda>f init_pars do_grad (hessian :: unit option) bounds constraints options.
               Inr (Fin 0, init_pars))
          (\<lambda>a. []) () \<lparr>poi_index = 0, suggested_init = [Fin 1, Fin 1],
                       fixed_poi_bounds = (\<lambda>p. [(Fin 0, Fin 10), (Fin 0, Fin 10)])\<rparr>
          False None None None None None (Some 7) Map.empty) 7 = []
   \<and> fst (fit (\<lambda>f init_pars do_grad (hessian :: unit option) bounds constraints options.
               Inr (Fin 0, init_pars))
          (\<lambda>a. []) () \<lparr>poi_index = 0, suggested_init = [Fin 1, Fin 1],
                       fixed_poi_bounds = (\<lambda>p. [(Fin 0, Fin 10), (Fin 0, Fin 10)])\<rparr>
          False None None None (Some (Fin 2)) None None Map.empty) 7 = []"
proof -
  let ?min = "\<lambda>(f :: unit) (init_pars :: pyfloat list) (do_grad :: bool) (hessian :: unit option)
      (bounds :: (pyfloat \<times> pyfloat) list) (constraints :: constraint list)
      (options :: string \<rightharpoonup> option_value).
      Inr (Fin 0, init_pars) :: pyerror + pyfloat \<times> pyfloat list"
  let ?mc = "\<lparr>poi_index = 0, suggested_init = [Fin 1, Fin 1],
              fixed_poi_bounds = (\<lambda>p. [(Fin 0, Fin 10), (Fin 0, Fin 10)])\<rparr>"
  note t1 = C10_fit_constraints[where fixed_poi_value = "Some (Fin 2)" and v = "Fin 2"
      and constraints = "Some 7" and a = 7 and initial_parameters = "Some (PyList [Fin 3, Fin 4])"
      and xs = "[Fin 3, Fin 4]" and init_pars = "[Fin 3, Fin 4]"
      and model_configuration = ?mc and heap = "\<lambda>a. []" and minimize = ?min
      and func = "()" and do_grad = False and hessian = None and bounds = None
      and logpdf = None and options = Map.empty]
  note t2 = C10_fit_constraints[where fixed_poi_value = None
      and constraints = "Some 7" and initial_parameters = None
      and model_configuration = ?mc and heap = "\<lambda>a. []" and minimize = ?min
      and func = "()" and do_grad = False and hessian = None and bounds = None
      and logpdf = None and options = Map.empty]
  note t3 = C10_fit_constraints[where fixed_poi_value = "Some (Fin 2)"
      and constraints = None and initial_parameters = None
      and model_configuration = ?mc and heap = "\<lambda>a. []" and minimize = ?min
      and func = "()" and do_grad = False and hessian = None and bounds = None
      and logpdf = None and options = Map.empty]
  from t1 have a: "fst (fit ?min (\<lambda>a. []) () ?mc False None (Some (PyList [Fin 3, Fin 4])) None
      (Some (Fin 2)) None (Some 7) Map.empty) =
      (\<lambda>a. [])(7 := [Constraint ''eq'' (\<lambda>vec. if 0 < length vec then Inr (fsub (vec ! 0) (Fin 2))
                                   else Inl IndexError)])"
    by (simp cong: if_cong)
  from t2 have b: "fst (fit ?min (\<lambda>a. []) () ?mc False None None None None None (Some 7)
      Map.empty) = (\<lambda>a. [])"
    by simp
  from t3 have c: "fst (fit ?min (\<lambda>a. []) () ?mc False None None None (Some (Fin 2)) None None
      Map.empty) = (\<lambda>a. [])"
    by simp
  show ?thesis unfolding a b c by (simp add: fsub_def)
qed


end
